theory Spec2Isabelle
  imports Main "HOL-Library.Word" "HOL-Library.Multiset" "HOL-Library.AList"
begin

section \<open>Freckle project indicators: the aggregation logic of main.go\<close>

text \<open>
  The repository holds two revisions of the one Go file: \<^verbatim>\<open>src/unnamed/part_000\<close> (the
  README followed by the revision with the \<^verbatim>\<open>TimeAggregater\<close> interface and the
  \<^verbatim>\<open>--period\<close> flag) and \<^verbatim>\<open>src/main.go\<close> (the earlier, month-only revision). The
  definitions below follow \<^verbatim>\<open>part_000\<close>; where \<^verbatim>\<open>main.go\<close> differs in a way that matters,
  its function is embedded as well under the prefix \<open>main_go_\<close>.

  Go's \<^verbatim>\<open>int\<close> is a machine integer, of 64 bits on the usual platforms: minutes, on
  which the program does arithmetic, are \<open>64 word\<close>s (addition wraps, comparison is signed). Identifiers and period keys are
  only compared, so they are \<open>int\<close>s; \<^verbatim>\<open>strconv.Atoi\<close> checks their range. Invoice amounts
  are \<^verbatim>\<open>float64\<close>: the embedding is polymorphic in the amount type and uses nothing of it
  but \<open>0\<close> and \<open>+\<close>. The type \<open>float64\<close> below, with the rounding addition of IEEE 754,
  is the instance that the program runs; the integers are an instance that adds exactly.
\<close>

subsection \<open>Strings: \<^verbatim>\<open>strings.Replace\<close> and \<^verbatim>\<open>sanitizeMetricName\<close>\<close>

text \<open>
  \<^verbatim>\<open>strings.Replace(s, old, new, n)\<close> of the Go library replaces the first \<open>n\<close>
  non-overlapping occurrences of \<open>old\<close>, scanning from the left, and all of them when
  \<open>n < 0\<close>. The program only calls it with a one-byte \<open>old\<close>; the library's special
  treatment of an empty \<open>old\<close> is not modelled (the string is returned as it is).
\<close>

function strings_Replace :: "string \<Rightarrow> string \<Rightarrow> string \<Rightarrow> int \<Rightarrow> string" where
  "strings_Replace s old new n =
     (if n = 0 \<or> old = [] \<or> s = [] then s
      else if take (length old) s = old
        then new @ strings_Replace (drop (length old) s) old new (n - 1)
      else hd s # strings_Replace (tl s) old new n)"
  by pat_completeness auto
termination
  by (relation "measure (\<lambda>(s, old, new, n). length s)") auto

declare strings_Replace.simps [simp del]

text \<open>
  \<^verbatim>\<open>
  func sanitizeMetricName(s string) string {
      s = strings.Replace(s, " ", "-", -1)
      s = strings.Replace(s, "/", "-", -1)
      s = strings.Replace(s, "\\", "-", -1)
      s = strings.Replace(s, "#", "", -1)
      s = strings.Replace(s, "(", "", -1)
      s = strings.Replace(s, ")", "", -1)
      return s
  }
  \<close>
  The backslash is the byte \<open>0x5C\<close>.
\<close>

definition sanitizeMetricName :: "string \<Rightarrow> string" where
  "sanitizeMetricName s0 =
     (let s1 = strings_Replace s0 '' '' ''-'' (- 1);
          s2 = strings_Replace s1 ''/'' ''-'' (- 1);
          s3 = strings_Replace s2 [CHR 0x5C] ''-'' (- 1);
          s4 = strings_Replace s3 ''#'' '''' (- 1);
          s5 = strings_Replace s4 ''('' '''' (- 1);
          s6 = strings_Replace s5 '')'' '''' (- 1)
      in s6)"

subsection \<open>Errors\<close>

text \<open>
  The values of Go's \<^verbatim>\<open>error\<close> that the program can meet: \<^verbatim>\<open>*time.ParseError\<close> (the
  value that did not parse and the library's message), \<^verbatim>\<open>*strconv.NumError\<close> (the input
  and the message), and a run-time panic (a method call on a nil interface). A function
  of Go that returns \<^verbatim>\<open>(result, error)\<close> is a function into \<open>error + result\<close>:
  \<^verbatim>\<open>return nil, err\<close> is \<open>Inl err\<close>, \<^verbatim>\<open>return result, nil\<close> is \<open>Inr result\<close>.
\<close>

datatype error =
    ParseError string string
  | NumError string string
  | Panic string

subsection \<open>The Go library: \<^verbatim>\<open>time.Time\<close>, \<^verbatim>\<open>time.Date\<close>, \<^verbatim>\<open>time.Parse\<close>\<close>

text \<open>
  A \<^verbatim>\<open>time.Time\<close> is modelled by its calendar fields in its location; \<^verbatim>\<open>t.Year()\<close> and
  \<^verbatim>\<open>t.Month()\<close> are the selectors \<open>Year\<close> and \<open>Month\<close>. The program builds times only
  with \<^verbatim>\<open>time.Parse\<close> and \<^verbatim>\<open>time.Date(..., time.UTC)\<close>.
\<close>

datatype Location = UTC | Local

record Time =
  Year :: int
  Month :: int
  Day :: int
  Hour :: int
  Minute :: int
  Second :: int
  Nanosecond :: int
  Loc :: Location

text \<open>The zero value of \<^verbatim>\<open>time.Time\<close>: January 1, year 1, 00:00:00 UTC.\<close>

definition zero_Time :: Time where
  "zero_Time = \<lparr>Year = 1, Month = 1, Day = 1, Hour = 0, Minute = 0, Second = 0,
     Nanosecond = 0, Loc = UTC\<rparr>"

definition isLeap :: "int \<Rightarrow> bool" where
  "isLeap year = (year mod 4 = 0 \<and> (year mod 100 \<noteq> 0 \<or> year mod 400 = 0))"

definition daysIn :: "int \<Rightarrow> int \<Rightarrow> int" where
  "daysIn m year =
     (if m = 2 then (if isLeap year then 29 else 28)
      else if m = 4 \<or> m = 6 \<or> m = 9 \<or> m = 11 then 30
      else 31)"

lemma daysIn_bounds: "28 \<le> daysIn m y \<and> daysIn m y \<le> 31"
  by (simp add: daysIn_def)

text \<open>
  \<^verbatim>\<open>time.Date\<close> accepts values outside their usual ranges and normalises them
  (``October 32 converts to November 1''). \<open>norm_day\<close> carries a day of the month that
  is out of range into the neighbouring months, for a month already in \<open>1..12\<close>: day
  \<open>0\<close> of a month is the last day of the month before.
\<close>

function norm_day :: "int \<Rightarrow> int \<Rightarrow> int \<Rightarrow> int \<times> int \<times> int" where
  "norm_day y m d =
     (if d < 1 then
        (let y' = (if m = 1 then y - 1 else y);
             m' = (if m = 1 then 12 else m - 1)
         in norm_day y' m' (d + daysIn m' y'))
      else if daysIn m y < d then
        (let y' = (if m = 12 then y + 1 else y);
             m' = (if m = 12 then 1 else m + 1)
         in norm_day y' m' (d - daysIn m y))
      else (y, m, d))"
  by pat_completeness auto
termination
proof (relation "measure (\<lambda>(y, m, d). nat (if d < 1 then 32 - d else d))", goal_cases)
  case 1
  show ?case by simp
next
  case (2 y m d y' m')
  have "28 \<le> daysIn m' y' \<and> daysIn m' y' \<le> 31" by (rule daysIn_bounds)
  with 2 show ?case by (auto split: if_splits)
next
  case (3 y m d y' m')
  have "28 \<le> daysIn m y \<and> daysIn m y \<le> 31" by (rule daysIn_bounds)
  with 3 show ?case by (auto split: if_splits)
qed

declare norm_day.simps [simp del]

definition time_Date ::
  "int \<Rightarrow> int \<Rightarrow> int \<Rightarrow> int \<Rightarrow> int \<Rightarrow> int \<Rightarrow> int \<Rightarrow> Location \<Rightarrow> Time" where
  "time_Date year month day hour minute sec nsec loc =
     (let year1 = year + (month - 1) div 12;
          month1 = (month - 1) mod 12 + 1;
          sec1 = sec + nsec div 1000000000;
          nsec1 = nsec mod 1000000000;
          minute1 = minute + sec1 div 60;
          sec2 = sec1 mod 60;
          hour1 = hour + minute1 div 60;
          minute2 = minute1 mod 60;
          day1 = day + hour1 div 24;
          hour2 = hour1 mod 24;
          (y, m, d) = norm_day year1 month1 day1
      in \<lparr>Year = y, Month = m, Day = d, Hour = hour2, Minute = minute2,
          Second = sec2, Nanosecond = nsec1, Loc = loc\<rparr>)"

text \<open>The library's test \<^verbatim>\<open>'0' <= c && c <= '9'\<close> on a byte (\<open>'0'\<close> is 48).\<close>

definition isDigit :: "char \<Rightarrow> bool" where
  "isDigit c = (48 \<le> (of_char c :: nat) \<and> (of_char c :: nat) \<le> 57)"

definition digitVal :: "char \<Rightarrow> int" where
  "digitVal c = int (of_char c) - 48"

text \<open>The value of a string of decimal digits, most significant first.\<close>

definition decimal :: "string \<Rightarrow> int" where
  "decimal ds = foldl (\<lambda>a c. 10 * a + digitVal c) 0 ds"

text \<open>
  \<^verbatim>\<open>time.Parse("2006-01-02", value)\<close>, for this layout only. The library reads four
  digits of year, the literal \<^verbatim>\<open>-\<close>, two digits of month (in \<open>1..12\<close>), the literal
  \<^verbatim>\<open>-\<close>, two digits of day; it refuses text left over, and then a day that the month
  does not have. The result is in UTC, at midnight.
\<close>

definition time_Parse :: "string \<Rightarrow> error + Time" where
  "time_Parse v =
     (if length v < 4 \<or> \<not> list_all isDigit (take 4 v)
        then Inl (ParseError v ''cannot parse as 2006'')
      else let year = decimal (take 4 v); v1 = drop 4 v in
      if take 1 v1 \<noteq> ''-'' then Inl (ParseError v ''cannot parse as -'')
      else let v2 = drop 1 v1 in
      if length v2 < 2 \<or> \<not> list_all isDigit (take 2 v2)
        then Inl (ParseError v ''cannot parse as 01'')
      else let month = decimal (take 2 v2); v3 = drop 2 v2 in
      if month \<le> 0 \<or> 12 < month then Inl (ParseError v ''month out of range'')
      else if take 1 v3 \<noteq> ''-'' then Inl (ParseError v ''cannot parse as -'')
      else let v4 = drop 1 v3 in
      if length v4 < 2 \<or> \<not> list_all isDigit (take 2 v4)
        then Inl (ParseError v ''cannot parse as 02'')
      else let day = decimal (take 2 v4); v5 = drop 2 v4 in
      if v5 \<noteq> [] then Inl (ParseError v ''extra text'')
      else if day < 1 \<or> daysIn month year < day
        then Inl (ParseError v ''day out of range'')
      else Inr (time_Date year month day 0 0 0 0 UTC))"

subsection \<open>The Go library: \<^verbatim>\<open>fmt.Sprintf\<close> for \<^verbatim>\<open>%d\<close> and \<^verbatim>\<open>%02d\<close>, \<^verbatim>\<open>strconv.Atoi\<close>\<close>

definition digitChar :: "nat \<Rightarrow> char" where
  "digitChar n = char_of (48 + n)"

function digits :: "nat \<Rightarrow> string" where
  "digits n = (if n < 10 then [digitChar n] else digits (n div 10) @ [digitChar (n mod 10)])"
  by pat_completeness auto
termination
  by (relation "measure (\<lambda>n. n)") auto

declare digits.simps [simp del]

text \<open>\<^verbatim>\<open>%d\<close>: the decimal digits, after a minus sign for a negative number.\<close>

definition fmt_d :: "int \<Rightarrow> string" where
  "fmt_d i = (if i < 0 then CHR ''-'' # digits (nat (- i)) else digits (nat i))"

text \<open>
  \<^verbatim>\<open>%02d\<close>: as \<^verbatim>\<open>%d\<close>, padded with zeros on the left to a width of two; the sign of
  a negative number counts in the width.
\<close>

definition fmt_02d :: "int \<Rightarrow> string" where
  "fmt_02d i =
     (if i < 0 then CHR ''-'' # digits (nat (- i))
      else replicate (2 - length (digits (nat i))) (CHR ''0'') @ digits (nat i))"

text \<open>
  \<^verbatim>\<open>strconv.Atoi\<close>: an optional sign and then one or more decimal digits; a value
  that does not fit the 64-bit \<^verbatim>\<open>int\<close> is an error.
\<close>

definition strconv_Atoi :: "string \<Rightarrow> error + int" where
  "strconv_Atoi s =
     (let neg = (take 1 s = ''-'');
          ds = (if take 1 s = ''-'' \<or> take 1 s = ''+'' then drop 1 s else s)
      in if ds = [] \<or> \<not> list_all isDigit ds then Inl (NumError s ''invalid syntax'')
         else let n = (if neg then - decimal ds else decimal ds)
         in if n < - (2 ^ 63) \<or> 2 ^ 63 - 1 < n then Inl (NumError s ''value out of range'')
            else Inr n)"

subsection \<open>\<^verbatim>\<open>TimeAggregater\<close>, \<^verbatim>\<open>MonthAgg\<close> and \<^verbatim>\<open>YearAgg\<close>\<close>

text \<open>
  The interface has two implementations, both empty structs: a value of the interface
  is one of the two.
  \<^verbatim>\<open>
  func (m MonthAgg) GetInt(t time.Time) (int, error) {
      return strconv.Atoi(fmt.Sprintf("%d%02d", t.Year(), t.Month())) }
  func (m MonthAgg) GetString(t time.Time) string {
      return fmt.Sprintf("%d-%02d", t.Year(), t.Month()) }
  func (m MonthAgg) GetPeriod(t time.Time) time.Time {
      return time.Date(t.Year(), t.Month(), 1, 0, 0, 0, 0, time.UTC) }
  func (y YearAgg) GetInt(t time.Time) (int, error) {
      return strconv.Atoi(fmt.Sprintf("%d", t.Year())) }
  func (y YearAgg) GetString(t time.Time) string { return fmt.Sprintf("%d", t.Year()) }
  func (y YearAgg) GetPeriod(t time.Time) time.Time {
      return time.Date(t.Year(), 1, 1, 0, 0, 0, 0, time.UTC) }
  \<close>
\<close>

datatype TimeAggregater = MonthAgg | YearAgg

fun GetInt :: "TimeAggregater \<Rightarrow> Time \<Rightarrow> error + int" where
  "GetInt MonthAgg t = strconv_Atoi (fmt_d (Year t) @ fmt_02d (Month t))"
| "GetInt YearAgg t = strconv_Atoi (fmt_d (Year t))"

fun GetString :: "TimeAggregater \<Rightarrow> Time \<Rightarrow> string" where
  "GetString MonthAgg t = fmt_d (Year t) @ ''-'' @ fmt_02d (Month t)"
| "GetString YearAgg t = fmt_d (Year t)"

fun GetPeriod :: "TimeAggregater \<Rightarrow> Time \<Rightarrow> Time" where
  "GetPeriod MonthAgg t = time_Date (Year t) (Month t) 1 0 0 0 0 UTC"
| "GetPeriod YearAgg t = time_Date (Year t) 1 1 0 0 0 0 UTC"

subsection \<open>The records of the Freckle client that the program reads\<close>

text \<open>
  \<^verbatim>\<open>freckle.Invoice\<close>, \<^verbatim>\<open>freckle.Project\<close>, \<^verbatim>\<open>freckle.Participant\<close> and
  \<^verbatim>\<open>freckle.Entry\<close> belong to the API client; only the fields that the program reads
  are kept. Several structs of the program share field names (\<^verbatim>\<open>Id\<close>, \<^verbatim>\<open>Name\<close>,
  \<^verbatim>\<open>Period\<close>, ...): a selector is written with its record's name where it would be
  ambiguous.
\<close>

type_synonym go_int = "64 word"

record 'a Invoice =
  InvoiceDate :: string
  TotalAmount :: 'a

record 'a Project =
  Id :: int
  Name :: string
  BillableMinutes :: go_int
  UnbillableMinutes :: go_int
  InvoicedMinutes :: go_int
  Invoices :: "'a Invoice list"

record Participant =
  Id :: int
  Email :: string
  FirstName :: string
  LastName :: string

record Entry =
  User :: Participant
  Date :: string
  Minutes :: go_int
  Billable :: bool

subsection \<open>\<^verbatim>\<open>ParticipantKpi\<close> and \<^verbatim>\<open>GetParticipantKpis\<close>\<close>

text \<open>
  \<^verbatim>\<open>
  type ParticipantKpi struct {
      freckle.Participant
      BillableMinutes   int
      UnbillableMinutes int
  }
  \<close>
  The embedded struct is the field \<open>Participant\<close>.
\<close>

record ParticipantKpi =
  Participant :: Participant
  BillableMinutes :: go_int
  UnbillableMinutes :: go_int

text \<open>
  \<^verbatim>\<open>
  func (slice ParticipantKpis) Less(i, j int) bool {
      return slice[i].BillableMinutes+slice[i].UnbillableMinutes <
             slice[j].BillableMinutes+slice[j].UnbillableMinutes }
  \<close>
  The sums wrap and are compared as signed integers. \<open>total_minutes\<close> is the signed
  value of the sum.
\<close>

definition total_minutes :: "ParticipantKpi \<Rightarrow> int" where
  "total_minutes p = sint (BillableMinutes p + UnbillableMinutes p)"

definition Less :: "ParticipantKpi \<Rightarrow> ParticipantKpi \<Rightarrow> bool" where
  "Less a b = (sint (BillableMinutes a + UnbillableMinutes a)
                 < sint (BillableMinutes b + UnbillableMinutes b))"

text \<open>\<^verbatim>\<open>sort.Reverse\<close> swaps the arguments of \<^verbatim>\<open>Less\<close>.\<close>

definition sort_Reverse :: "('a \<Rightarrow> 'a \<Rightarrow> bool) \<Rightarrow> 'a \<Rightarrow> 'a \<Rightarrow> bool" where
  "sort_Reverse lt a b = lt b a"

text \<open>
  Two things are left open by Go and are parameters of the functions below.

  \<^item> The order in which \<^verbatim>\<open>range\<close> visits a map is not specified. A map that the program
    iterates is an association list (\<open>map_of\<close> looks a key up, \<open>AList.update\<close> stores a
    value), and the iteration is a function \<open>rng\<close> that lists its entries in some order:
    \<open>range_spec rng\<close> says that every entry is visited exactly once.
  \<^item> \<^verbatim>\<open>sort.Sort\<close> is not stable and its algorithm is the library's. It is a function
    \<open>srt\<close> taking the \<^verbatim>\<open>Less\<close> of the sorted slice: \<open>sort_Sort_spec srt\<close> says that the
    result is a rearrangement of the slice, and that, when \<^verbatim>\<open>Less\<close> is a strict weak
    ordering, no element is \<^verbatim>\<open>Less\<close> than an element before it.

  \<open>insertion_sort\<close> is one function that meets \<open>sort_Sort_spec\<close>.
\<close>

definition range_spec :: "(('k \<times> 'v) list \<Rightarrow> ('k \<times> 'v) list) \<Rightarrow> bool" where
  "range_spec rng = (\<forall>m. mset (rng m) = mset m)"

definition strict_weak_ordering :: "('a \<Rightarrow> 'a \<Rightarrow> bool) \<Rightarrow> bool" where
  "strict_weak_ordering lt =
     ((\<forall>a. \<not> lt a a) \<and>
      (\<forall>a b c. lt a b \<and> lt b c \<longrightarrow> lt a c) \<and>
      (\<forall>a b c. \<not> lt a b \<and> \<not> lt b c \<longrightarrow> \<not> lt a c))"

definition sort_Sort_spec :: "(('a \<Rightarrow> 'a \<Rightarrow> bool) \<Rightarrow> 'a list \<Rightarrow> 'a list) \<Rightarrow> bool" where
  "sort_Sort_spec srt =
     (\<forall>lt xs. mset (srt lt xs) = mset xs \<and>
        (strict_weak_ordering lt \<longrightarrow> sorted_wrt (\<lambda>a b. \<not> lt b a) (srt lt xs)))"

fun insert_by :: "('a \<Rightarrow> 'a \<Rightarrow> bool) \<Rightarrow> 'a \<Rightarrow> 'a list \<Rightarrow> 'a list" where
  "insert_by lt x [] = [x]"
| "insert_by lt x (y # ys) =
     (if lt y x then y # insert_by lt x ys else x # y # ys)"

definition insertion_sort :: "('a \<Rightarrow> 'a \<Rightarrow> bool) \<Rightarrow> 'a list \<Rightarrow> 'a list" where
  "insertion_sort lt xs = foldr (insert_by lt) xs []"

text \<open>
  \<^verbatim>\<open>
  func GetParticipantKpis(fes []freckle.Entry) ParticipantKpis {
      participantsMap := make(map[int]ParticipantKpi)
      var user freckle.Participant
      for _, entry := range fes {
          user = entry.User
          pkpi, ok := participantsMap[user.Id]
          if !ok { pkpi = ParticipantKpi{user, 0, 0} }
          if entry.Billable { pkpi.BillableMinutes += entry.Minutes
          } else { pkpi.UnbillableMinutes += entry.Minutes }
          participantsMap[user.Id] = pkpi
      }
      var pks ParticipantKpis
      for _, v := range participantsMap { pks = append(pks, v) }
      sort.Sort(sort.Reverse(pks))
      return pks
  }
  \<close>
  \<open>participantsMap_add\<close> is the body of the first loop.
\<close>

definition add_Minutes :: "Entry \<Rightarrow> ParticipantKpi \<Rightarrow> ParticipantKpi" where
  "add_Minutes entry pkpi =
     (if Billable entry
      then pkpi\<lparr>BillableMinutes := BillableMinutes pkpi + Minutes entry\<rparr>
      else pkpi\<lparr>UnbillableMinutes := UnbillableMinutes pkpi + Minutes entry\<rparr>)"

definition participantsMap_add ::
  "(int \<times> ParticipantKpi) list \<Rightarrow> Entry \<Rightarrow> (int \<times> ParticipantKpi) list" where
  "participantsMap_add participantsMap entry =
     (let user = User entry;
          pkpi = (case map_of participantsMap (Participant.Id user) of
                    Some p \<Rightarrow> p
                  | None \<Rightarrow> \<lparr>Participant = user, BillableMinutes = 0, UnbillableMinutes = 0\<rparr>)
      in AList.update (Participant.Id user) (add_Minutes entry pkpi) participantsMap)"

definition GetParticipantKpis ::
  "((int \<times> ParticipantKpi) list \<Rightarrow> (int \<times> ParticipantKpi) list) \<Rightarrow>
   ((ParticipantKpi \<Rightarrow> ParticipantKpi \<Rightarrow> bool) \<Rightarrow> ParticipantKpi list \<Rightarrow> ParticipantKpi list) \<Rightarrow>
   Entry list \<Rightarrow> ParticipantKpi list" where
  "GetParticipantKpis rng srt fes =
     (let participantsMap = foldl participantsMap_add [] fes;
          pks = map snd (rng participantsMap)
      in srt (sort_Reverse Less) pks)"

subsection \<open>\<^verbatim>\<open>InvoicePeriodKpi\<close> and \<^verbatim>\<open>GetInvoiceKpiPerPeriod\<close>\<close>

text \<open>A nil \<^verbatim>\<open>TimeAggregater\<close>, the zero value of the interface, is \<open>None\<close>.\<close>

record 'a InvoicePeriodKpi =
  TimeAgg :: "TimeAggregater option"
  Period :: Time
  Amount :: 'a

definition zero_InvoicePeriodKpi :: "'a::zero InvoicePeriodKpi" where
  "zero_InvoicePeriodKpi =
     \<lparr>InvoicePeriodKpi.TimeAgg = None, InvoicePeriodKpi.Period = zero_Time, Amount = 0\<rparr>"

text \<open>
  \<^verbatim>\<open>
  func GetInvoiceKpiPerPeriod(tagg TimeAggregater, fis []freckle.Invoice)
          ([]InvoicePeriodKpi, error) {
      agrregateInvoices := make(map[int]InvoicePeriodKpi)
      var keys []int
      var key int
      for _, invoice := range fis {
          t, err := time.Parse("2006-01-02", invoice.InvoiceDate)
          if err != nil { return nil, err }
          key, err = tagg.GetInt(t)
          if err != nil { return nil, err }
          ik, ok := agrregateInvoices[key]
          if !ok { keys = append(keys, key) }
          ik.Period = tagg.GetPeriod(t)
          ik.Amount += invoice.TotalAmount
          ik.TimeAgg = tagg
          agrregateInvoices[key] = ik
      }
      sort.Ints(keys)
      var sik []InvoicePeriodKpi
      for _, v := range keys { sik = append(sik, agrregateInvoices[v]) }
      return sik, nil
  }
  \<close>
  The map is only read by key, so it is a map of HOL; reading a missing key gives the
  zero value. \<^verbatim>\<open>sort.Ints\<close> sorts integers in increasing order, which fixes its result:
  it is \<open>sort\<close>.
\<close>

fun GetInvoiceKpiPerPeriod_loop ::
  "TimeAggregater \<Rightarrow> ('a::{zero,plus}) Invoice list \<Rightarrow>
   (int \<rightharpoonup> 'a InvoicePeriodKpi) \<Rightarrow> int list \<Rightarrow>
   error + ((int \<rightharpoonup> 'a InvoicePeriodKpi) \<times> int list)" where
  "GetInvoiceKpiPerPeriod_loop tagg [] agrregateInvoices keys = Inr (agrregateInvoices, keys)"
| "GetInvoiceKpiPerPeriod_loop tagg (invoice # fis) agrregateInvoices keys =
     (case time_Parse (InvoiceDate invoice) of
        Inl err \<Rightarrow> Inl err
      | Inr t \<Rightarrow>
         (case GetInt tagg t of
            Inl err \<Rightarrow> Inl err
          | Inr key \<Rightarrow>
             (let ik = (case agrregateInvoices key of
                          Some x \<Rightarrow> x | None \<Rightarrow> zero_InvoicePeriodKpi);
                  keys' = (if agrregateInvoices key = None then keys @ [key] else keys);
                  ik' = ik\<lparr>InvoicePeriodKpi.Period := GetPeriod tagg t,
                           Amount := Amount ik + TotalAmount invoice,
                           InvoicePeriodKpi.TimeAgg := Some tagg\<rparr>
              in GetInvoiceKpiPerPeriod_loop tagg fis (agrregateInvoices(key \<mapsto> ik')) keys')))"

definition GetInvoiceKpiPerPeriod ::
  "TimeAggregater \<Rightarrow> ('a::{zero,plus}) Invoice list \<Rightarrow> error + 'a InvoicePeriodKpi list" where
  "GetInvoiceKpiPerPeriod tagg fis =
     (case GetInvoiceKpiPerPeriod_loop tagg fis Map.empty [] of
        Inl err \<Rightarrow> Inl err
      | Inr (agrregateInvoices, keys) \<Rightarrow>
          Inr (map (\<lambda>v. case agrregateInvoices v of
                          Some x \<Rightarrow> x | None \<Rightarrow> zero_InvoicePeriodKpi)
                   (sort keys)))"

definition GetInvoiceKpiPerMonth ::
  "('a::{zero,plus}) Invoice list \<Rightarrow> error + 'a InvoicePeriodKpi list" where
  "GetInvoiceKpiPerMonth fis = GetInvoiceKpiPerPeriod MonthAgg fis"

definition GetInvoiceKpiPerYear ::
  "('a::{zero,plus}) Invoice list \<Rightarrow> error + 'a InvoicePeriodKpi list" where
  "GetInvoiceKpiPerYear fis = GetInvoiceKpiPerPeriod YearAgg fis"

subsection \<open>\<^verbatim>\<open>ParticipantsPeriod\<close> and \<^verbatim>\<open>GetParticipantsPeriodPerPeriod\<close>\<close>

record ParticipantsPeriod =
  TimeAgg :: "TimeAggregater option"
  Period :: Time
  Participants :: "ParticipantKpi list"

definition zero_ParticipantsPeriod :: ParticipantsPeriod where
  "zero_ParticipantsPeriod =
     \<lparr>ParticipantsPeriod.TimeAgg = None, ParticipantsPeriod.Period = zero_Time,
      Participants = []\<rparr>"

text \<open>
  The inner loop of \<^verbatim>\<open>GetParticipantsPeriodPerPeriod\<close> and the append after it:
  \<^verbatim>\<open>
          foundFlag := false
          for i, p := range pk.Participants {
              if p.Id == entry.User.Id {
                  if entry.Billable { p.BillableMinutes += entry.Minutes
                  } else { p.UnbillableMinutes += entry.Minutes }
                  pk.Participants[i] = p
                  foundFlag = true
                  break
              }
          }
          if !foundFlag {
              var billableMinutes, unbillableMinutes int
              if entry.Billable { billableMinutes = entry.Minutes
              } else { unbillableMinutes = entry.Minutes }
              pk.Participants = append(pk.Participants,
                  ParticipantKpi{entry.User, billableMinutes, unbillableMinutes})
          }
  \<close>
  The first participant with the entry's \<^verbatim>\<open>Id\<close> is updated in place; when there is
  none, a new one is appended.
\<close>

fun Participants_add :: "Entry \<Rightarrow> ParticipantKpi list \<Rightarrow> ParticipantKpi list" where
  "Participants_add entry [] =
     [\<lparr>Participant = User entry,
       BillableMinutes = (if Billable entry then Minutes entry else 0),
       UnbillableMinutes = (if Billable entry then 0 else Minutes entry)\<rparr>]"
| "Participants_add entry (p # ps) =
     (if Participant.Id (Participant p) = Participant.Id (User entry)
      then add_Minutes entry p # ps
      else p # Participants_add entry ps)"

text \<open>
  \<^verbatim>\<open>
  func GetParticipantsPeriodPerPeriod(tagg TimeAggregater, fes []freckle.Entry)
          ([]ParticipantsPeriod, error) {
      dedupParticipants := make(map[int]ParticipantsPeriod)
      var keys []int
      var key int
      for _, entry := range fes {
          t, err := time.Parse("2006-01-02", entry.Date)
          if err != nil { return nil, err }
          key, err = tagg.GetInt(t)
          if err != nil { return nil, err }
          pk, ok := dedupParticipants[key]
          if !ok { keys = append(keys, key) }
          pk.Period = tagg.GetPeriod(t)
          pk.TimeAgg = tagg
          ... (the inner loop above)
          dedupParticipants[key] = pk
      }
      var participants []ParticipantsPeriod
      for _, v := range dedupParticipants {
          sort.Sort(sort.Reverse(v.Participants))
          participants = append(participants, v)
      }
      return participants, nil
  }
  \<close>
  The slice \<^verbatim>\<open>keys\<close> of this function is appended to and never read: it is left out.
\<close>

fun GetParticipantsPeriodPerPeriod_loop ::
  "TimeAggregater \<Rightarrow> Entry list \<Rightarrow> (int \<times> ParticipantsPeriod) list \<Rightarrow>
   error + (int \<times> ParticipantsPeriod) list" where
  "GetParticipantsPeriodPerPeriod_loop tagg [] dedupParticipants = Inr dedupParticipants"
| "GetParticipantsPeriodPerPeriod_loop tagg (entry # fes) dedupParticipants =
     (case time_Parse (Date entry) of
        Inl err \<Rightarrow> Inl err
      | Inr t \<Rightarrow>
         (case GetInt tagg t of
            Inl err \<Rightarrow> Inl err
          | Inr key \<Rightarrow>
             (let pk = (case map_of dedupParticipants key of
                          Some x \<Rightarrow> x | None \<Rightarrow> zero_ParticipantsPeriod);
                  pk' = pk\<lparr>ParticipantsPeriod.Period := GetPeriod tagg t,
                           ParticipantsPeriod.TimeAgg := Some tagg,
                           Participants := Participants_add entry (Participants pk)\<rparr>
              in GetParticipantsPeriodPerPeriod_loop tagg fes
                   (AList.update key pk' dedupParticipants))))"

definition GetParticipantsPeriodPerPeriod ::
  "((int \<times> ParticipantsPeriod) list \<Rightarrow> (int \<times> ParticipantsPeriod) list) \<Rightarrow>
   ((ParticipantKpi \<Rightarrow> ParticipantKpi \<Rightarrow> bool) \<Rightarrow> ParticipantKpi list \<Rightarrow> ParticipantKpi list) \<Rightarrow>
   TimeAggregater \<Rightarrow> Entry list \<Rightarrow> error + ParticipantsPeriod list" where
  "GetParticipantsPeriodPerPeriod rng srt tagg fes =
     (case GetParticipantsPeriodPerPeriod_loop tagg fes [] of
        Inl err \<Rightarrow> Inl err
      | Inr dedupParticipants \<Rightarrow>
          Inr (map (\<lambda>v. v\<lparr>Participants := srt (sort_Reverse Less) (Participants v)\<rparr>)
                   (map snd (rng dedupParticipants))))"

subsection \<open>Metrics: \<^verbatim>\<open>librato.Gauge\<close>\<close>

text \<open>
  A gauge of the metrics client has a name, a source, a count and a \<^verbatim>\<open>float64\<close> sum.
  The sums of the program are conversions of minutes, \<^verbatim>\<open>float64(p.BillableMinutes)\<close>, or
  amounts: \<open>FromInt\<close> and \<open>FromAmount\<close>. \<^verbatim>\<open>m.Gauges = append(m.Gauges, ...)\<close> is the list
  of gauges passed in and returned longer.
\<close>

datatype 'a gauge_sum = FromInt go_int | FromAmount 'a

record 'a Gauge =
  Name :: string
  Source :: string
  Count :: nat
  Sum :: "'a gauge_sum"

subsection \<open>\<^verbatim>\<open>ProjectKpi\<close>, \<^verbatim>\<open>ProjectPeriodKpi\<close> and \<^verbatim>\<open>GetProjectKpiPerPeriod\<close>\<close>

text \<open>
  \<^verbatim>\<open>
  type ProjectKpi struct {
      freckle.Project
      DetailedEntries []freckle.Entry
  }
  func (pi *ProjectKpi) GetInvoicedTotal() float64 {
      invoicedAmount := 0.0
      for _, invoice := range pi.Invoices { invoicedAmount += invoice.TotalAmount }
      return invoicedAmount
  }
  \<close>
\<close>

record 'a ProjectKpi =
  Project :: "'a Project"
  DetailedEntries :: "Entry list"

definition GetInvoicedTotal :: "('a::{zero,plus}) ProjectKpi \<Rightarrow> 'a" where
  "GetInvoicedTotal pi =
     foldl (\<lambda>invoicedAmount invoice. invoicedAmount + TotalAmount invoice) 0
       (Invoices (Project pi))"

record 'a ProjectPeriodKpi =
  Name :: string
  TimeAgg :: "TimeAggregater option"
  Period :: Time
  Invoice :: "'a InvoicePeriodKpi"
  Participants :: "ParticipantKpi list"

definition zero_ProjectPeriodKpi :: "'a::zero ProjectPeriodKpi" where
  "zero_ProjectPeriodKpi =
     \<lparr>Name = [], TimeAgg = None, Period = zero_Time, Invoice = zero_InvoicePeriodKpi,
      Participants = []\<rparr>"

text \<open>
  The first loop of \<^verbatim>\<open>GetProjectKpiPerPeriod\<close>:
  \<^verbatim>\<open>
      for _, invoice := range invoiceAmonthPerPeriod {
          key, err = invoice.TimeAgg.GetInt(invoice.Period)
          if err != nil { return nil, err }
          ppm, ok := mapProjectKpiPerMonth[key]
          if !ok { keys = append(keys, key) }
          ppm.Name = p.Name
          ppm.TimeAgg = tagg
          ppm.Period = invoice.Period
          ppm.Invoice = invoice
          mapProjectKpiPerMonth[key] = ppm
      }
  \<close>
  A method call on a nil \<^verbatim>\<open>TimeAgg\<close> panics.
\<close>

fun GetProjectKpiPerPeriod_invoices ::
  "string \<Rightarrow> TimeAggregater \<Rightarrow> ('a::zero) InvoicePeriodKpi list \<Rightarrow>
   (int \<rightharpoonup> 'a ProjectPeriodKpi) \<Rightarrow> int list \<Rightarrow>
   error + ((int \<rightharpoonup> 'a ProjectPeriodKpi) \<times> int list)" where
  "GetProjectKpiPerPeriod_invoices name tagg [] mapProjectKpiPerMonth keys =
     Inr (mapProjectKpiPerMonth, keys)"
| "GetProjectKpiPerPeriod_invoices name tagg (invoice # rest) mapProjectKpiPerMonth keys =
     (case InvoicePeriodKpi.TimeAgg invoice of
        None \<Rightarrow> Inl (Panic ''nil pointer dereference'')
      | Some ta \<Rightarrow>
         (case GetInt ta (InvoicePeriodKpi.Period invoice) of
            Inl err \<Rightarrow> Inl err
          | Inr key \<Rightarrow>
             (let ppm = (case mapProjectKpiPerMonth key of
                           Some x \<Rightarrow> x | None \<Rightarrow> zero_ProjectPeriodKpi);
                  keys' = (if mapProjectKpiPerMonth key = None then keys @ [key] else keys);
                  ppm' = ppm\<lparr>Name := name, TimeAgg := Some tagg,
                             Period := InvoicePeriodKpi.Period invoice, Invoice := invoice\<rparr>
              in GetProjectKpiPerPeriod_invoices name tagg rest
                   (mapProjectKpiPerMonth(key \<mapsto> ppm')) keys')))"

text \<open>
  The second loop:
  \<^verbatim>\<open>
      for _, participants := range participantKpiPerPeriod {
          key, err = participants.TimeAgg.GetInt(participants.Period)
          if err != nil { return nil, err }
          ppm, ok := mapProjectKpiPerMonth[key]
          if !ok { keys = append(keys, key) }
          ppm.Name = p.Name
          ppm.TimeAgg = tagg
          ppm.Period = participants.Period
          ppm.Participants = participants.Participants
          mapProjectKpiPerMonth[key] = ppm
      }
  \<close>
\<close>

fun GetProjectKpiPerPeriod_participants ::
  "string \<Rightarrow> TimeAggregater \<Rightarrow> ParticipantsPeriod list \<Rightarrow>
   (int \<rightharpoonup> ('a::zero) ProjectPeriodKpi) \<Rightarrow> int list \<Rightarrow>
   error + ((int \<rightharpoonup> 'a ProjectPeriodKpi) \<times> int list)" where
  "GetProjectKpiPerPeriod_participants name tagg [] mapProjectKpiPerMonth keys =
     Inr (mapProjectKpiPerMonth, keys)"
| "GetProjectKpiPerPeriod_participants name tagg (participants # rest)
       mapProjectKpiPerMonth keys =
     (case ParticipantsPeriod.TimeAgg participants of
        None \<Rightarrow> Inl (Panic ''nil pointer dereference'')
      | Some ta \<Rightarrow>
         (case GetInt ta (ParticipantsPeriod.Period participants) of
            Inl err \<Rightarrow> Inl err
          | Inr key \<Rightarrow>
             (let ppm = (case mapProjectKpiPerMonth key of
                           Some x \<Rightarrow> x | None \<Rightarrow> zero_ProjectPeriodKpi);
                  keys' = (if mapProjectKpiPerMonth key = None then keys @ [key] else keys);
                  ppm' = ppm\<lparr>Name := name, TimeAgg := Some tagg,
                             Period := ParticipantsPeriod.Period participants,
                             Participants := ParticipantsPeriod.Participants participants\<rparr>
              in GetProjectKpiPerPeriod_participants name tagg rest
                   (mapProjectKpiPerMonth(key \<mapsto> ppm')) keys')))"

text \<open>
  \<^verbatim>\<open>
  func GetProjectKpiPerPeriod(tagg TimeAggregater, p ProjectKpi) ([]ProjectPeriodKpi, error) {
      invoiceAmonthPerPeriod, err := GetInvoiceKpiPerPeriod(tagg, p.Invoices)
      if err != nil { return nil, err }
      participantKpiPerPeriod, err := GetParticipantsPeriodPerPeriod(tagg, p.DetailedEntries)
      if err != nil { return nil, err }
      mapProjectKpiPerMonth := make(map[int]ProjectPeriodKpi)
      var keys []int
      var key int
      ... (the two loops above)
      sort.Ints(keys)
      var projectsPeriod []ProjectPeriodKpi
      for _, v := range keys {
          projectsPeriod = append(projectsPeriod, mapProjectKpiPerMonth[v]) }
      return projectsPeriod, nil
  }
  \<close>
\<close>

definition GetProjectKpiPerPeriod ::
  "((int \<times> ParticipantsPeriod) list \<Rightarrow> (int \<times> ParticipantsPeriod) list) \<Rightarrow>
   ((ParticipantKpi \<Rightarrow> ParticipantKpi \<Rightarrow> bool) \<Rightarrow> ParticipantKpi list \<Rightarrow> ParticipantKpi list) \<Rightarrow>
   TimeAggregater \<Rightarrow> ('a::{zero,plus}) ProjectKpi \<Rightarrow> error + 'a ProjectPeriodKpi list" where
  "GetProjectKpiPerPeriod rng srt tagg p =
     (case GetInvoiceKpiPerPeriod tagg (Invoices (Project p)) of
        Inl err \<Rightarrow> Inl err
      | Inr invoiceAmonthPerPeriod \<Rightarrow>
     (case GetParticipantsPeriodPerPeriod rng srt tagg (DetailedEntries p) of
        Inl err \<Rightarrow> Inl err
      | Inr participantKpiPerPeriod \<Rightarrow>
     (case GetProjectKpiPerPeriod_invoices (Project.Name (Project p)) tagg
             invoiceAmonthPerPeriod Map.empty [] of
        Inl err \<Rightarrow> Inl err
      | Inr (map1, keys1) \<Rightarrow>
     (case GetProjectKpiPerPeriod_participants (Project.Name (Project p)) tagg
             participantKpiPerPeriod map1 keys1 of
        Inl err \<Rightarrow> Inl err
      | Inr (mapProjectKpiPerMonth, keys) \<Rightarrow>
          Inr (map (\<lambda>v. case mapProjectKpiPerMonth v of
                          Some x \<Rightarrow> x | None \<Rightarrow> zero_ProjectPeriodKpi)
                   (sort keys))))))"

definition GetProjectKpiPerMonth ::
  "((int \<times> ParticipantsPeriod) list \<Rightarrow> (int \<times> ParticipantsPeriod) list) \<Rightarrow>
   ((ParticipantKpi \<Rightarrow> ParticipantKpi \<Rightarrow> bool) \<Rightarrow> ParticipantKpi list \<Rightarrow> ParticipantKpi list) \<Rightarrow>
   ('a::{zero,plus}) ProjectKpi \<Rightarrow> error + 'a ProjectPeriodKpi list" where
  "GetProjectKpiPerMonth rng srt p = GetProjectKpiPerPeriod rng srt MonthAgg p"

definition GetProjectKpiPerYear ::
  "((int \<times> ParticipantsPeriod) list \<Rightarrow> (int \<times> ParticipantsPeriod) list) \<Rightarrow>
   ((ParticipantKpi \<Rightarrow> ParticipantKpi \<Rightarrow> bool) \<Rightarrow> ParticipantKpi list \<Rightarrow> ParticipantKpi list) \<Rightarrow>
   ('a::{zero,plus}) ProjectKpi \<Rightarrow> error + 'a ProjectPeriodKpi list" where
  "GetProjectKpiPerYear rng srt p = GetProjectKpiPerPeriod rng srt YearAgg p"

subsection \<open>The constants of the program and the \<^verbatim>\<open>RegisterMetrics\<close> methods\<close>

definition libratoBaseName :: string where "libratoBaseName = ''FreckleAPI''"
definition libratoCatProjects :: string where "libratoCatProjects = ''projects''"
definition libratoCatParticipants :: string where "libratoCatParticipants = ''participants''"
definition libratoCatYearlyParticipants :: string where
  "libratoCatYearlyParticipants = ''yearlyParticipants''"
definition freckleTokenVarName :: string where "freckleTokenVarName = ''FRECKLE_APP_TOKEN''"
definition exitCodeOk :: int where "exitCodeOk = 0"
definition exitCodeNotOk :: int where "exitCodeNotOk = 1"

text \<open>
  \<^verbatim>\<open>
  func (p ParticipantKpi) RegisterMetrics(m *librato.Metrics, prefix, source string) {
      source = sanitizeMetricName(source)
      m.Gauges = append(m.Gauges, librato.Gauge{
          Name: fmt.Sprintf("%s.UnbillableMinutes.%s-%s", prefix, p.FirstName, p.LastName),
          Source: source, Count: 1, Sum: float64(p.UnbillableMinutes)})
      m.Gauges = append(m.Gauges, librato.Gauge{
          Name: fmt.Sprintf("%s.BillableMinutes.%s-%s", prefix, p.FirstName, p.LastName),
          Source: source, Count: 1, Sum: float64(p.BillableMinutes)})
  }
  \<close>
\<close>

definition ParticipantKpi_RegisterMetrics ::
  "ParticipantKpi \<Rightarrow> 'a Gauge list \<Rightarrow> string \<Rightarrow> string \<Rightarrow> 'a Gauge list" where
  "ParticipantKpi_RegisterMetrics p gauges prefix source0 =
     (let source = sanitizeMetricName source0 in
      gauges @
      [\<lparr>Gauge.Name = prefix @ ''.UnbillableMinutes.'' @ FirstName (Participant p) @ ''-'' @
                LastName (Participant p),
        Source = source, Count = 1, Sum = FromInt (UnbillableMinutes p)\<rparr>] @
      [\<lparr>Gauge.Name = prefix @ ''.BillableMinutes.'' @ FirstName (Participant p) @ ''-'' @
                LastName (Participant p),
        Source = source, Count = 1, Sum = FromInt (BillableMinutes p)\<rparr>])"

text \<open>
  \<^verbatim>\<open>ProjectKpi.RegisterMetrics\<close> appends four gauges named
  \<^verbatim>\<open>FreckleAPI.projects.UnbillableMinutes\<close>, \<^verbatim>\<open>...BillableMinutes\<close>,
  \<^verbatim>\<open>...InvoicedMinutes\<close> and \<^verbatim>\<open>...InvoicedAmount\<close>, with the sanitised project name as
  the source.
\<close>

definition ProjectKpi_RegisterMetrics ::
  "('a::{zero,plus}) ProjectKpi \<Rightarrow> 'a Gauge list \<Rightarrow> 'a Gauge list" where
  "ProjectKpi_RegisterMetrics pi gauges =
     (let prjName = sanitizeMetricName (Project.Name (Project pi)) in
      gauges @
      [\<lparr>Gauge.Name = libratoBaseName @ ''.'' @ libratoCatProjects @ ''.UnbillableMinutes'',
        Source = prjName, Count = 1, Sum = FromInt (Project.UnbillableMinutes (Project pi))\<rparr>] @
      [\<lparr>Gauge.Name = libratoBaseName @ ''.'' @ libratoCatProjects @ ''.BillableMinutes'',
        Source = prjName, Count = 1, Sum = FromInt (Project.BillableMinutes (Project pi))\<rparr>] @
      [\<lparr>Gauge.Name = libratoBaseName @ ''.'' @ libratoCatProjects @ ''.InvoicedMinutes'',
        Source = prjName, Count = 1, Sum = FromInt (InvoicedMinutes (Project pi))\<rparr>] @
      [\<lparr>Gauge.Name = libratoBaseName @ ''.'' @ libratoCatProjects @ ''.InvoicedAmount'',
        Source = prjName, Count = 1, Sum = FromAmount (GetInvoicedTotal pi)\<rparr>])"

text \<open>
  \<^verbatim>\<open>
  func (pp ProjectPeriodKpi) RegisterMetrics(m *librato.Metrics, prefix string) {
      prjName := sanitizeMetricName(pp.Name)
      source := pp.TimeAgg.GetString(pp.Period)
      m.Gauges = append(m.Gauges, librato.Gauge{
          Name: fmt.Sprintf("%s.InvoicedAmount.%s", prefix, prjName),
          Source: source, Count: 1, Sum: float64(pp.Invoice.Amount)})
      var billableMin int
      var unbillableMin int
      for _, p := range pp.Participants {
          billableMin += p.BillableMinutes
          unbillableMin += p.UnbillableMinutes
      }
      m.Gauges = append(m.Gauges, librato.Gauge{
          Name: fmt.Sprintf("%s.UnbillableMinutes.%s", prefix, prjName),
          Source: source, Count: 1, Sum: float64(unbillableMin)})
      m.Gauges = append(m.Gauges, librato.Gauge{
          Name: fmt.Sprintf("%s.BillableMinutes.%s", prefix, prjName),
          Source: source, Count: 1, Sum: float64(billableMin)})
  }
  \<close>
  The call of \<^verbatim>\<open>GetString\<close> on a nil \<^verbatim>\<open>TimeAgg\<close> panics before anything is appended.
\<close>

definition ProjectPeriodKpi_RegisterMetrics ::
  "'a ProjectPeriodKpi \<Rightarrow> 'a Gauge list \<Rightarrow> string \<Rightarrow> error + 'a Gauge list" where
  "ProjectPeriodKpi_RegisterMetrics pp gauges prefix =
     (let prjName = sanitizeMetricName (ProjectPeriodKpi.Name pp) in
      case TimeAgg pp of
        None \<Rightarrow> Inl (Panic ''nil pointer dereference'')
      | Some ta \<Rightarrow>
         (let source = GetString ta (Period pp);
              billableMin = foldl (\<lambda>b p. b + BillableMinutes p) 0 (Participants pp);
              unbillableMin = foldl (\<lambda>u p. u + UnbillableMinutes p) 0 (Participants pp)
          in Inr (gauges @
               [\<lparr>Gauge.Name = prefix @ ''.InvoicedAmount.'' @ prjName,
                 Source = source, Count = 1, Sum = FromAmount (Amount (Invoice pp))\<rparr>] @
               [\<lparr>Gauge.Name = prefix @ ''.UnbillableMinutes.'' @ prjName,
                 Source = source, Count = 1, Sum = FromInt unbillableMin\<rparr>] @
               [\<lparr>Gauge.Name = prefix @ ''.BillableMinutes.'' @ prjName,
                 Source = source, Count = 1, Sum = FromInt billableMin\<rparr>])))"

subsection \<open>The program: \<^verbatim>\<open>main\<close>\<close>

text \<open>
  What \<^verbatim>\<open>main\<close> prints on the standard output is a list of lines. The \<^verbatim>\<open>String\<close> and
  \<^verbatim>\<open>VerboseString\<close> methods format floating-point numbers; a line printed from one of
  them is represented by the value that it renders, a line of fixed text by the text.
\<close>

datatype 'a line =
    Println_string string
  | Println_ProjectKpi "'a ProjectKpi"
  | Println_VerboseString ParticipantKpi "'a ProjectKpi"
  | Println_ProjectPeriodKpi "'a ProjectPeriodKpi"
  | Println_ParticipantKpi ParticipantKpi

text \<open>
  How a run ends: \<^verbatim>\<open>main\<close> returns (exit status 0), or it calls \<^verbatim>\<open>os.Exit\<close> with a
  status, or \<^verbatim>\<open>log.Fatal(err)\<close>, which logs the error and exits with the status 1, or it
  panics, which ends a Go program with the status 2.
\<close>

datatype outcome = Return | Exit int | Fatal error | Panicked error

fun exit_status :: "outcome \<Rightarrow> int" where
  "exit_status Return = 0"
| "exit_status (Exit n) = n"
| "exit_status (Fatal err) = 1"
| "exit_status (Panicked err) = 2"

text \<open>
  A run: the lines printed, the gauges registered in \<^verbatim>\<open>metrics\<close>, how the run ended and
  whether \<^verbatim>\<open>PostMetrics\<close> was called.
\<close>

record 'a run =
  stdout :: "'a line list"
  metrics :: "'a Gauge list"
  ended :: outcome
  posted :: bool

text \<open>
  The breakdown of the \<^verbatim>\<open>year\<close> case, for the periods of one project:
  \<^verbatim>\<open>
          for _, ppm := range projectKpiPerPeriod {
              fmt.Println("\t\t", ppm.String())
              ppm.RegisterMetrics(metrics,
                  fmt.Sprintf("%s.%s", libratoBaseName, libratoCatYearlyParticipants))
              for _, participant := range ppm.Participants {
                  fmt.Println("\t\t\t", participant.String()) }
          }
  \<close>
\<close>

fun main_year_breakdown ::
  "'a ProjectPeriodKpi list \<Rightarrow> 'a line list \<Rightarrow> 'a Gauge list \<Rightarrow>
   'a line list \<times> 'a Gauge list \<times> error option" where
  "main_year_breakdown [] out gauges = (out, gauges, None)"
| "main_year_breakdown (ppm # rest) out gauges =
     (let out1 = out @ [Println_ProjectPeriodKpi ppm] in
      case ProjectPeriodKpi_RegisterMetrics ppm gauges
             (libratoBaseName @ ''.'' @ libratoCatYearlyParticipants) of
        Inl err \<Rightarrow> (out1, gauges, Some err)
      | Inr gauges' \<Rightarrow>
          main_year_breakdown rest
            (out1 @ map Println_ParticipantKpi (Participants ppm)) gauges')"

text \<open>
  The second loop of \<^verbatim>\<open>main\<close>, over the projects that the first loop has fetched:
  \<^verbatim>\<open>
      for _, project := range projects {
          fmt.Println(project.String())
          project.RegisterMetrics(metrics)
          for _, p := range GetParticipantKpis(project.DetailedEntries) {
              fmt.Println("\t", p.VerboseString(project))
              p.RegisterMetrics(metrics,
                  fmt.Sprintf("%s.%s", libratoBaseName, libratoCatParticipants), project.Name)
          }
          switch timeAggFlag {
          case "month":
              projectKpiPerPeriod, err := GetProjectKpiPerMonth(project)
              if err != nil { log.Fatal(err) }
              fmt.Println("\n\tbreakdown per month")
              for _, ppm := range projectKpiPerPeriod {
                  fmt.Println("\t\t", ppm.String())
                  for _, participant := range ppm.Participants {
                      fmt.Println("\t\t\t", participant.String()) }
              }
          case "year":
              projectKpiPerPeriod, err := GetProjectKpiPerYear(project)
              if err != nil { log.Fatal(err) }
              fmt.Println("\n\tbreakdown per year")
              ... (the breakdown above)
          default:
              fmt.Println("\nTime period options are : month or year")
              fmt.Println(timeAggFlag, "is not a valid choice.")
              os.Exit(exitCodeNotOk)
          }
      }
  \<close>
  The function returns the lines, the gauges and how the loop ended. \<open>rngK\<close> and \<open>rngP\<close>
  are the iteration orders of the two maps, \<open>srt\<close> is \<^verbatim>\<open>sort.Sort\<close>. The byte \<open>0x0A\<close> is
  the newline and \<open>0x09\<close> the tabulation of the two headers.
\<close>

fun main_projects ::
  "((int \<times> ParticipantKpi) list \<Rightarrow> (int \<times> ParticipantKpi) list) \<Rightarrow>
   ((int \<times> ParticipantsPeriod) list \<Rightarrow> (int \<times> ParticipantsPeriod) list) \<Rightarrow>
   ((ParticipantKpi \<Rightarrow> ParticipantKpi \<Rightarrow> bool) \<Rightarrow> ParticipantKpi list \<Rightarrow> ParticipantKpi list) \<Rightarrow>
   string \<Rightarrow> ('a::{zero,plus}) ProjectKpi list \<Rightarrow> 'a line list \<Rightarrow> 'a Gauge list \<Rightarrow>
   'a line list \<times> 'a Gauge list \<times> outcome" where
  "main_projects rngK rngP srt timeAggFlag [] out gauges = (out, gauges, Return)"
| "main_projects rngK rngP srt timeAggFlag (project # projects) out gauges =
     (let out1 = out @ [Println_ProjectKpi project];
          gauges1 = ProjectKpi_RegisterMetrics project gauges;
          pks = GetParticipantKpis rngK srt (DetailedEntries project);
          out2 = out1 @ map (\<lambda>p. Println_VerboseString p project) pks;
          gauges2 = foldl (\<lambda>g p. ParticipantKpi_RegisterMetrics p g
                             (libratoBaseName @ ''.'' @ libratoCatParticipants)
                             (Project.Name (Project project)))
                      gauges1 pks
      in if timeAggFlag = ''month'' then
           (case GetProjectKpiPerMonth rngP srt project of
              Inl err \<Rightarrow> (out2, gauges2, Fatal err)
            | Inr projectKpiPerPeriod \<Rightarrow>
                main_projects rngK rngP srt timeAggFlag projects
                  (out2 @ [Println_string ([CHR 0x0A, CHR 0x09] @ ''breakdown per month'')] @
                     concat (map (\<lambda>ppm. Println_ProjectPeriodKpi ppm #
                                        map Println_ParticipantKpi (Participants ppm))
                                 projectKpiPerPeriod))
                  gauges2)
         else if timeAggFlag = ''year'' then
           (case GetProjectKpiPerYear rngP srt project of
              Inl err \<Rightarrow> (out2, gauges2, Fatal err)
            | Inr projectKpiPerPeriod \<Rightarrow>
               (case main_year_breakdown projectKpiPerPeriod
                       (out2 @ [Println_string ([CHR 0x0A, CHR 0x09] @ ''breakdown per year'')])
                       gauges2 of
                  (out3, gauges3, Some err) \<Rightarrow> (out3, gauges3, Panicked err)
                | (out3, gauges3, None) \<Rightarrow>
                    main_projects rngK rngP srt timeAggFlag projects out3 gauges3))
         else
           (out2 @
              [Println_string (CHR 0x0A # ''Time period options are : month or year''),
               Println_string (timeAggFlag @ '' is not a valid choice.'')],
            gauges2, Exit exitCodeNotOk))"

text \<open>
  \<^verbatim>\<open>main\<close>. The token check comes first:
  \<^verbatim>\<open>
      freckleAppToken := os.Getenv(freckleTokenVarName)
      if freckleAppToken == "" {
          fmt.Println(freckleTokenVarName, "environment variable is not set")
          os.Exit(exitCodeNotOk)
      }
  \<close>
  then the projects and their entries are fetched from the API (the list \<open>projects\<close>
  stands for what the first loop of \<^verbatim>\<open>main\<close> builds from the answers, after the filter on
  the project names), then the second loop runs, and at last
  \<^verbatim>\<open>
      if libratoFlag && libratoAccount != "" && libratoToken != "" {
          ... libratoClient.PostMetrics(metrics) ...
      }
  \<close>
\<close>

definition main ::
  "((int \<times> ParticipantKpi) list \<Rightarrow> (int \<times> ParticipantKpi) list) \<Rightarrow>
   ((int \<times> ParticipantsPeriod) list \<Rightarrow> (int \<times> ParticipantsPeriod) list) \<Rightarrow>
   ((ParticipantKpi \<Rightarrow> ParticipantKpi \<Rightarrow> bool) \<Rightarrow> ParticipantKpi list \<Rightarrow> ParticipantKpi list) \<Rightarrow>
   string \<Rightarrow> string \<Rightarrow> bool \<Rightarrow> string \<Rightarrow> string \<Rightarrow> ('a::{zero,plus}) ProjectKpi list \<Rightarrow>
   'a run" where
  "main rngK rngP srt freckleAppToken timeAggFlag libratoFlag libratoAccount libratoToken
        projects =
     (if freckleAppToken = [] then
        \<lparr>stdout = [Println_string (freckleTokenVarName @ '' environment variable is not set'')],
         metrics = [], ended = Exit exitCodeNotOk, posted = False\<rparr>
      else
        (case main_projects rngK rngP srt timeAggFlag projects [] [] of
           (out, gauges, e) \<Rightarrow>
             \<lparr>stdout = out, metrics = gauges, ended = e,
              posted = (e = Return \<and> libratoFlag \<and> libratoAccount \<noteq> [] \<and> libratoToken \<noteq> [])\<rparr>))"

subsection \<open>The earlier revision, \<^verbatim>\<open>src/main.go\<close>: \<^verbatim>\<open>GetInvoiceKpiPerMonth\<close>\<close>

text \<open>
  \<^verbatim>\<open>
  type InvoicePeriodKpi struct {
      Period time.Time
      Amount float64
  }
  func GetInvoiceKpiPerMonth(fis []freckle.Invoice) ([]InvoicePeriodKpi, error) {
      agrregateInvoices := make(map[int]InvoicePeriodKpi)
      var keys []int
      var key int
      for _, invoice := range fis {
          t, err := time.Parse("2006-01-02", invoice.InvoiceDate)
          if err != nil { return nil, err }
          key, err = strconv.Atoi(fmt.Sprintf("%d%02d", t.Year(), t.Month()))
          if err != nil { return nil, err }
          ik, ok := agrregateInvoices[key]
          if !ok { keys = append(keys, key) }
          ik.Period = time.Date(t.Year(), t.Month(), 0, 0, 0, 0, 0, time.UTC)
          ik.Amount += invoice.TotalAmount
          agrregateInvoices[key] = ik
      }
      sort.Ints(keys)
      var sik []InvoicePeriodKpi
      for _, v := range keys { sik = append(sik, agrregateInvoices[v]) }
      return sik, nil
  }
  \<close>
  The day given to \<^verbatim>\<open>time.Date\<close> is \<open>0\<close>, where the later revision gives \<open>1\<close>.
\<close>

record 'a main_go_InvoicePeriodKpi =
  main_go_Period :: Time
  main_go_Amount :: 'a

definition main_go_zero_InvoicePeriodKpi :: "'a::zero main_go_InvoicePeriodKpi" where
  "main_go_zero_InvoicePeriodKpi = \<lparr>main_go_Period = zero_Time, main_go_Amount = 0\<rparr>"

fun main_go_GetInvoiceKpiPerMonth_loop ::
  "('a::{zero,plus}) Invoice list \<Rightarrow> (int \<rightharpoonup> 'a main_go_InvoicePeriodKpi) \<Rightarrow> int list \<Rightarrow>
   error + ((int \<rightharpoonup> 'a main_go_InvoicePeriodKpi) \<times> int list)" where
  "main_go_GetInvoiceKpiPerMonth_loop [] agrregateInvoices keys = Inr (agrregateInvoices, keys)"
| "main_go_GetInvoiceKpiPerMonth_loop (invoice # fis) agrregateInvoices keys =
     (case time_Parse (InvoiceDate invoice) of
        Inl err \<Rightarrow> Inl err
      | Inr t \<Rightarrow>
         (case strconv_Atoi (fmt_d (Year t) @ fmt_02d (Month t)) of
            Inl err \<Rightarrow> Inl err
          | Inr key \<Rightarrow>
             (let ik = (case agrregateInvoices key of
                          Some x \<Rightarrow> x | None \<Rightarrow> main_go_zero_InvoicePeriodKpi);
                  keys' = (if agrregateInvoices key = None then keys @ [key] else keys);
                  ik' = ik\<lparr>main_go_Period := time_Date (Year t) (Month t) 0 0 0 0 0 UTC,
                           main_go_Amount := main_go_Amount ik + TotalAmount invoice\<rparr>
              in main_go_GetInvoiceKpiPerMonth_loop fis (agrregateInvoices(key \<mapsto> ik')) keys')))"

definition main_go_GetInvoiceKpiPerMonth ::
  "('a::{zero,plus}) Invoice list \<Rightarrow> error + 'a main_go_InvoicePeriodKpi list" where
  "main_go_GetInvoiceKpiPerMonth fis =
     (case main_go_GetInvoiceKpiPerMonth_loop fis Map.empty [] of
        Inl err \<Rightarrow> Inl err
      | Inr (agrregateInvoices, keys) \<Rightarrow>
          Inr (map (\<lambda>v. case agrregateInvoices v of
                          Some x \<Rightarrow> x | None \<Rightarrow> main_go_zero_InvoicePeriodKpi)
                   (sort keys)))"

subsection \<open>The Go type \<^verbatim>\<open>float64\<close>: zero and addition\<close>

text \<open>
  The only operations of the program on invoice amounts are the zero value and \<^verbatim>\<open>+=\<close>.
  A finite \<^verbatim>\<open>float64\<close> is a binary64 number of IEEE 754: \<open>Float64 m e\<close> is the number
  \<open>m * 2 ^ e\<close>, written with 53 significant bits (\<open>2 ^ 52 \<le> \<bar>m\<bar> < 2 ^ 53\<close>), and
  \<open>Float64 0 0\<close> is zero. Go adds two of them as the standard says: the exact sum, rounded
  to the nearest number with 53 significant bits, and to the one with an even last bit
  when the sum is half-way between two.

  \<open>bit_length n\<close> is the number of binary digits of \<open>n\<close>; \<open>round_shift n k\<close> is
  \<open>n / 2 ^ k\<close> rounded to the nearest integer, a tie to the even one;
  \<open>float64_round s e\<close> is the \<^verbatim>\<open>float64\<close> nearest to \<open>s * 2 ^ e\<close>. The exponent is not
  bounded here: the overflow to an infinity (above about \<open>1.8e308\<close>), the subnormal
  numbers (below about \<open>2.2e-308\<close>), the negative zero, the infinities and the NaNs are
  not modelled.
\<close>

datatype float64 = Float64 int int

function bit_length :: "nat \<Rightarrow> nat" where
  "bit_length n = (if n = 0 then 0 else Suc (bit_length (n div 2)))"
  by pat_completeness auto
termination
  by (relation "measure (\<lambda>n. n)") auto

declare bit_length.simps [simp del]

definition round_shift :: "nat \<Rightarrow> nat \<Rightarrow> nat" where
  "round_shift n k =
     (if k = 0 then n
      else let q = n div 2 ^ k; r = n mod 2 ^ k; h = 2 ^ (k - 1)
           in if r < h then q
              else if h < r then q + 1
              else if even q then q else q + 1)"

definition float64_round :: "int \<Rightarrow> int \<Rightarrow> float64" where
  "float64_round s e =
     (let n = nat \<bar>s\<bar>; l = bit_length n
      in if n = 0 then Float64 0 0
         else if l \<le> 53 then Float64 (s * 2 ^ (53 - l)) (e - int (53 - l))
         else let q = round_shift n (l - 53)
              in if q = 2 ^ 53 then Float64 (sgn s * 2 ^ 52) (e + int (l - 53) + 1)
                 else Float64 (sgn s * int q) (e + int (l - 53)))"

fun float64_add :: "float64 \<Rightarrow> float64 \<Rightarrow> float64" where
  "float64_add (Float64 m1 e1) (Float64 m2 e2) =
     (let e = min e1 e2
      in float64_round (m1 * 2 ^ nat (e1 - e) + m2 * 2 ^ nat (e2 - e)) e)"

instantiation float64 :: "{zero,plus}"
begin

definition zero_float64 :: float64 where
  "zero_float64 = Float64 0 0"

definition plus_float64 :: "float64 \<Rightarrow> float64 \<Rightarrow> float64" where
  "plus_float64 x y = float64_add x y"

instance ..

end

subsection \<open>Reference values for the statements\<close>

text \<open>
  \<open>kpi_of fes k\<close> is the summary that the entries \<open>fes\<close> give the participant with
  the identifier \<open>k\<close>: the participant of the first entry with this identifier, and the
  sums of the billable and of the unbillable minutes of all entries with it; \<open>None\<close> when
  no entry has the identifier.
\<close>

definition kpi_of :: "Entry list \<Rightarrow> int \<Rightarrow> ParticipantKpi option" where
  "kpi_of fes k =
     map_option
       (\<lambda>e0. \<lparr>Participant = User e0,
              BillableMinutes =
                sum_list (map Minutes
                  (filter (\<lambda>e. Participant.Id (User e) = k \<and> Billable e) fes)),
              UnbillableMinutes =
                sum_list (map Minutes
                  (filter (\<lambda>e. Participant.Id (User e) = k \<and> \<not> Billable e) fes))\<rparr>)
       (find (\<lambda>e. Participant.Id (User e) = k) fes)"

text \<open>
  A time is a \<open>calendar_date\<close> when it is a day of the Gregorian calendar in the years
  0 to 9999: the dates that can be written \<^verbatim>\<open>YYYY-MM-DD\<close>. \<open>period_key\<close> and
  \<open>period_start\<close> are the key and the first instant of the period of a date, as the
  specification words them.
\<close>

definition calendar_date :: "Time \<Rightarrow> bool" where
  "calendar_date t =
     (0 \<le> Year t \<and> Year t \<le> 9999 \<and> 1 \<le> Month t \<and> Month t \<le> 12 \<and>
      1 \<le> Day t \<and> Day t \<le> daysIn (Month t) (Year t))"

definition period_key :: "TimeAggregater \<Rightarrow> Time \<Rightarrow> int" where
  "period_key tagg t = (case tagg of MonthAgg \<Rightarrow> Year t * 100 + Month t | YearAgg \<Rightarrow> Year t)"

definition period_start :: "TimeAggregater \<Rightarrow> Time \<Rightarrow> Time" where
  "period_start tagg t =
     \<lparr>Year = Year t, Month = (case tagg of MonthAgg \<Rightarrow> Month t | YearAgg \<Rightarrow> 1), Day = 1,
      Hour = 0, Minute = 0, Second = 0, Nanosecond = 0, Loc = UTC\<rparr>"

text \<open>
  The entries of a small project, for concrete runs: two entries of the participant 1,
  whose second entry gives another e-mail address and last name, and one of the
  participant 2.
\<close>

definition alice :: Participant where
  "alice = \<lparr>Participant.Id = 1, Email = ''alice@example.com'', FirstName = ''Alice'', LastName = ''A''\<rparr>"
definition alice2 :: Participant where
  "alice2 = \<lparr>Participant.Id = 1, Email = ''alice@other.org'', FirstName = ''Alice'', LastName = ''B''\<rparr>"
definition bob :: Participant where
  "bob = \<lparr>Participant.Id = 2, Email = ''bob@example.com'', FirstName = ''Bob'', LastName = ''B''\<rparr>"
definition example_entries :: "Entry list" where
  "example_entries =
     [\<lparr>User = alice, Date = ''2016-01-05'', Minutes = 60, Billable = True\<rparr>,
      \<lparr>User = alice2, Date = ''2016-02-05'', Minutes = 45, Billable = False\<rparr>,
      \<lparr>User = bob, Date = ''2016-01-10'', Minutes = 90, Billable = True\<rparr>]"

text \<open>A midnight in UTC, and a project with three invoices and the entries above.\<close>

definition date :: "int \<Rightarrow> int \<Rightarrow> int \<Rightarrow> Time" where
  "date y m d = \<lparr>Year = y, Month = m, Day = d, Hour = 0, Minute = 0, Second = 0,
     Nanosecond = 0, Loc = UTC\<rparr>"

definition example_invoices :: "int Invoice list" where
  "example_invoices =
     [\<lparr>InvoiceDate = ''2016-01-15'', TotalAmount = 500\<rparr>,
      \<lparr>InvoiceDate = ''2016-01-20'', TotalAmount = 250\<rparr>,
      \<lparr>InvoiceDate = ''2016-03-01'', TotalAmount = 100\<rparr>]"

definition example_project :: "int ProjectKpi" where
  "example_project =
     \<lparr>Project = \<lparr>Project.Id = 7, Project.Name = ''Alpha (web)'', Project.BillableMinutes = 150,
                  Project.UnbillableMinutes = 45, InvoicedMinutes = 120,
                  Invoices = example_invoices\<rparr>,
      DetailedEntries = example_entries\<rparr>"

text \<open>Inputs with dates that do not parse.\<close>

definition bad_invoices :: "int Invoice list" where
  "bad_invoices =
     [\<lparr>InvoiceDate = ''2016-01-15'', TotalAmount = 500\<rparr>,
      \<lparr>InvoiceDate = ''2016-02-30'', TotalAmount = 250\<rparr>,
      \<lparr>InvoiceDate = ''03/01/2016'', TotalAmount = 100\<rparr>]"

definition bad_entries :: "Entry list" where
  "bad_entries =
     [\<lparr>User = alice, Date = ''2016-01-05'', Minutes = 60, Billable = True\<rparr>,
      \<lparr>User = bob, Date = ''2016-13-01'', Minutes = 90, Billable = True\<rparr>]"

definition bad_project :: "int ProjectKpi" where
  "bad_project = example_project\<lparr>DetailedEntries := bad_entries\<rparr>"







subsection \<open>Invariants of the aggregation loops\<close>

text \<open>
  \<open>in_period tagg k p\<close>: the time \<open>p\<close> is the start of the period with the key \<open>k\<close>.
  An aggregate is valid for a key when its \<^verbatim>\<open>TimeAgg\<close> is set and its \<^verbatim>\<open>Period\<close> is the
  start of the period with this key. \<open>lookup_ppm\<close> reads the merged map as Go does (the
  zero value for a missing key); \<open>with_invoice\<close> and \<open>with_participants\<close> are the four
  assignments of the first and of the second loop of \<^verbatim>\<open>GetProjectKpiPerPeriod\<close>.
\<close>

definition in_period :: "TimeAggregater \<Rightarrow> int \<Rightarrow> Time \<Rightarrow> bool" where
  "in_period tagg k p =
     (\<exists>t. calendar_date t \<and> p = period_start tagg t \<and> k = period_key tagg t)"

definition valid_ik :: "TimeAggregater \<Rightarrow> int \<Rightarrow> 'a InvoicePeriodKpi \<Rightarrow> bool" where
  "valid_ik tagg k ik =
     (InvoicePeriodKpi.TimeAgg ik = Some tagg \<and> in_period tagg k (InvoicePeriodKpi.Period ik))"

definition valid_pk :: "TimeAggregater \<Rightarrow> int \<Rightarrow> ParticipantsPeriod \<Rightarrow> bool" where
  "valid_pk tagg k pk =
     (ParticipantsPeriod.TimeAgg pk = Some tagg \<and> in_period tagg k (ParticipantsPeriod.Period pk))"

definition invoices_inv ::
  "TimeAggregater \<Rightarrow> (int \<rightharpoonup> 'a InvoicePeriodKpi) \<Rightarrow> int list \<Rightarrow> bool" where
  "invoices_inv tagg m keys =
     (distinct keys \<and> set keys = dom m \<and> (\<forall>k ik. m k = Some ik \<longrightarrow> valid_ik tagg k ik))"

definition participants_inv :: "TimeAggregater \<Rightarrow> (int \<times> ParticipantsPeriod) list \<Rightarrow> bool" where
  "participants_inv tagg al =
     (distinct (map fst al) \<and> (\<forall>(k, pk)\<in>set al. valid_pk tagg k pk))"

definition lookup_ppm :: "(int \<rightharpoonup> ('a::zero) ProjectPeriodKpi) \<Rightarrow> int \<Rightarrow> 'a ProjectPeriodKpi" where
  "lookup_ppm m k = (case m k of Some x \<Rightarrow> x | None \<Rightarrow> zero_ProjectPeriodKpi)"

definition with_invoice ::
  "string \<Rightarrow> TimeAggregater \<Rightarrow> 'a InvoicePeriodKpi \<Rightarrow> 'a ProjectPeriodKpi \<Rightarrow> 'a ProjectPeriodKpi" where
  "with_invoice name tagg invoice ppm =
     ppm\<lparr>Name := name, TimeAgg := Some tagg, Period := InvoicePeriodKpi.Period invoice,
         Invoice := invoice\<rparr>"

definition with_participants ::
  "string \<Rightarrow> TimeAggregater \<Rightarrow> ParticipantsPeriod \<Rightarrow> 'a ProjectPeriodKpi \<Rightarrow> 'a ProjectPeriodKpi" where
  "with_participants name tagg participants ppm =
     ppm\<lparr>Name := name, TimeAgg := Some tagg,
         Period := ParticipantsPeriod.Period participants,
         Participants := ParticipantsPeriod.Participants participants\<rparr>"


section \<open>Properties\<close>

subsection \<open>Properties of \<^verbatim>\<open>sanitizeMetricName\<close>\<close>

lemma strings_Replace_char:
  "n < 0 \<Longrightarrow>
   strings_Replace s [c] new n = concat (map (\<lambda>x. if x = c then new else [x]) s)"
proof (induction s arbitrary: n)
  case Nil
  show ?case by (simp add: strings_Replace.simps)
next
  case (Cons x xs)
  have n1: "n - 1 < 0" and n0: "n \<noteq> 0" using Cons.prems by simp_all
  show ?case
  proof (cases "x = c")
    case True
    then show ?thesis
      using Cons.IH [OF n1] n0 by (subst strings_Replace.simps) simp
  next
    case False
    then show ?thesis
      using Cons.IH [OF Cons.prems] n0 by (subst strings_Replace.simps) simp
  qed
qed

lemma set_strings_Replace_char:
  "n < 0 \<Longrightarrow>
   set (strings_Replace s [c] new n) = (set s - {c}) \<union> (if c \<in> set s then set new else {})"
  by (auto simp: strings_Replace_char split: if_splits)

lemma strings_Replace_char_absent:
  "n < 0 \<Longrightarrow> c \<notin> set s \<Longrightarrow> strings_Replace s [c] new n = s"
proof -
  assume n: "n < 0" and c: "c \<notin> set s"
  have "concat (map (\<lambda>x. if x = c then new else [x]) s) = s"
    using c by (induction s) auto
  then show ?thesis by (simp add: strings_Replace_char [OF n])
qed

definition metric_forbidden :: "char set" where
  "metric_forbidden = {CHR '' '', CHR ''/'', CHR 0x5C, CHR ''#'', CHR ''('', CHR '')''}"

lemma sanitizeMetricName_clean: "set (sanitizeMetricName x) \<inter> metric_forbidden = {}"
  unfolding sanitizeMetricName_def Let_def metric_forbidden_def
  by (auto simp: set_strings_Replace_char split: if_splits)

lemma sanitizeMetricName_fixed:
  "set s \<inter> metric_forbidden = {} \<Longrightarrow> sanitizeMetricName s = s"
  unfolding sanitizeMetricName_def Let_def metric_forbidden_def
  by (simp add: strings_Replace_char_absent)

subsection \<open>Decimal numbers: \<^verbatim>\<open>Sprintf\<close> and \<^verbatim>\<open>Atoi\<close>\<close>

lemma digitVal_digitChar: "n < 10 \<Longrightarrow> digitVal (digitChar n) = int n"
  by (simp add: digitVal_def digitChar_def)

lemma isDigit_digitChar: "n < 10 \<Longrightarrow> isDigit (digitChar n)"
  by (simp add: isDigit_def digitChar_def)

lemma foldl_decimal:
  "foldl (\<lambda>a c. 10 * a + digitVal c) a ys =
   a * 10 ^ length ys + foldl (\<lambda>a c. 10 * a + digitVal c) 0 ys"
proof (induction ys rule: rev_induct)
  case Nil
  show ?case by simp
next
  case (snoc y ys)
  let ?f = "\<lambda>a c. 10 * a + digitVal c"
  have "foldl ?f a (ys @ [y]) = 10 * foldl ?f a ys + digitVal y" by simp
  also have "\<dots> = 10 * (a * 10 ^ length ys + foldl ?f 0 ys) + digitVal y"
    by (simp only: snoc.IH)
  also have "\<dots> = a * 10 ^ length (ys @ [y]) + (10 * foldl ?f 0 ys + digitVal y)"
    by (simp add: distrib_left)
  also have "10 * foldl ?f 0 ys + digitVal y = foldl ?f 0 (ys @ [y])" by simp
  finally show ?case .
qed

lemma decimal_append: "decimal (xs @ ys) = decimal xs * 10 ^ length ys + decimal ys"
  unfolding decimal_def foldl_append by (rule foldl_decimal)

lemma decimal_single: "decimal [c] = digitVal c"
  by (simp add: decimal_def)

lemma decimal_digits: "decimal (digits n) = int n"
proof (induction n rule: digits.induct)
  case (1 n)
  show ?case
  proof (cases "n < 10")
    case True
    then show ?thesis
      by (subst digits.simps) (simp add: decimal_single digitVal_digitChar)
  next
    case False
    then have "decimal (digits (n div 10)) = int (n div 10)" by (rule 1)
    moreover have "int (n div 10) * 10 + int (n mod 10) = int n"
    proof -
      have "int n = int (n div 10 * 10 + n mod 10)" by simp
      then show ?thesis by (simp only: of_nat_add of_nat_mult of_nat_numeral)
    qed
    ultimately show ?thesis
      using False
      by (subst digits.simps) (simp add: decimal_append decimal_single digitVal_digitChar)
  qed
qed

lemma isDigit_digits: "list_all isDigit (digits n)"
proof (induction n rule: digits.induct)
  case (1 n)
  show ?case
  proof (cases "n < 10")
    case True
    then show ?thesis by (subst digits.simps) (simp add: isDigit_digitChar)
  next
    case False
    then have "list_all isDigit (digits (n div 10))" by (rule 1)
    with False show ?thesis by (subst digits.simps) (simp add: isDigit_digitChar)
  qed
qed

lemma digits_nonempty: "digits n \<noteq> []"
  by (subst digits.simps) simp

lemma length_digits_small: "n < 10 \<Longrightarrow> length (digits n) = 1"
  by (subst digits.simps) simp

lemma length_digits_two: "10 \<le> n \<Longrightarrow> n < 100 \<Longrightarrow> length (digits n) = 2"
  by (subst digits.simps) (simp add: length_digits_small)

lemma decimal_zero: "decimal ''0'' = 0"
  by (simp add: decimal_def digitVal_def)

lemma isDigit_zero: "isDigit CHR ''0''"
  by (simp add: isDigit_def)

lemma fmt_02d_props:
  assumes "0 \<le> m" and "m < 100"
  shows "decimal (fmt_02d m) = m \<and> length (fmt_02d m) = 2 \<and> list_all isDigit (fmt_02d m)"
proof (cases "nat m < 10")
  case True
  then have "fmt_02d m = CHR ''0'' # digits (nat m)"
    using assms by (simp add: fmt_02d_def length_digits_small)
  then show ?thesis
    using assms True decimal_append [of "''0''" "digits (nat m)"]
    by (simp add: length_digits_small decimal_digits decimal_zero isDigit_digits isDigit_zero)
next
  case False
  then have "length (digits (nat m)) = 2" using assms by (simp add: length_digits_two)
  then show ?thesis using assms by (simp add: fmt_02d_def decimal_digits isDigit_digits)
qed

lemma not_sign_digit: "isDigit c \<Longrightarrow> c \<noteq> CHR ''-'' \<and> c \<noteq> CHR ''+''"
  by (auto simp: isDigit_def)

lemma strconv_Atoi_digits:
  assumes "ds \<noteq> []" and "list_all isDigit ds" and "decimal ds < 2 ^ 63" and "0 \<le> decimal ds"
  shows "strconv_Atoi ds = Inr (decimal ds)"
proof -
  obtain c cs where ds: "ds = c # cs" using assms(1) by (cases ds) auto
  then have "isDigit c" using assms(2) by simp
  then have "c \<noteq> CHR ''-'' \<and> c \<noteq> CHR ''+''" by (rule not_sign_digit)
  then have sign: "take 1 ds \<noteq> ''-''" "take 1 ds \<noteq> ''+''" using ds by simp_all
  have range: "\<not> (decimal ds < - (2 ^ 63) \<or> 2 ^ 63 - 1 < decimal ds)"
    using assms(3,4) by linarith
  show ?thesis
    unfolding strconv_Atoi_def Let_def
    by (simp only: sign assms(1,2) range if_False simp_thms)
qed

lemma GetInt_MonthAgg:
  assumes "0 \<le> Year t" and "Year t \<le> 9999" and "1 \<le> Month t" and "Month t \<le> 12"
  shows "GetInt MonthAgg t = Inr (Year t * 100 + Month t)"
proof -
  let ?s = "fmt_d (Year t) @ fmt_02d (Month t)"
  have m: "decimal (fmt_02d (Month t)) = Month t \<and> length (fmt_02d (Month t)) = 2 \<and>
           list_all isDigit (fmt_02d (Month t))"
    using assms by (intro fmt_02d_props) simp_all
  have y: "fmt_d (Year t) = digits (nat (Year t))" using assms by (simp add: fmt_d_def)
  have d: "decimal ?s = Year t * 100 + Month t"
    using assms m by (simp add: decimal_append y decimal_digits)
  have "strconv_Atoi ?s = Inr (decimal ?s)"
  proof (rule strconv_Atoi_digits)
    show "?s \<noteq> []" by (simp add: y digits_nonempty)
    show "list_all isDigit ?s" using m by (simp add: y isDigit_digits)
    show "decimal ?s < 2 ^ 63" using assms by (simp add: d)
    show "0 \<le> decimal ?s" using assms by (simp add: d)
  qed
  then show ?thesis by (simp add: d)
qed

lemma GetInt_YearAgg:
  assumes "0 \<le> Year t" and "Year t \<le> 9999"
  shows "GetInt YearAgg t = Inr (Year t)"
proof -
  have y: "fmt_d (Year t) = digits (nat (Year t))" using assms by (simp add: fmt_d_def)
  have "strconv_Atoi (digits (nat (Year t))) = Inr (decimal (digits (nat (Year t))))"
    using assms by (intro strconv_Atoi_digits) (simp_all add: digits_nonempty isDigit_digits decimal_digits)
  then show ?thesis using assms by (simp add: y decimal_digits)
qed

subsection \<open>The sorting and iteration contracts\<close>

lemma range_spec_id: "range_spec (\<lambda>m. m)"
  by (simp add: range_spec_def)

lemma range_spec_rev: "range_spec rev"
  by (simp add: range_spec_def)

lemma mset_insert_by: "mset (insert_by lt x xs) = add_mset x (mset xs)"
  by (induction xs) auto

lemma mset_insertion_sort: "mset (insertion_sort lt xs) = mset xs"
  unfolding insertion_sort_def by (induction xs) (auto simp: mset_insert_by)

lemma set_insert_by: "set (insert_by lt x xs) = insert x (set xs)"
  by (induction xs) auto

lemma sorted_insert_by:
  assumes "strict_weak_ordering lt" and "sorted_wrt (\<lambda>a b. \<not> lt b a) xs"
  shows "sorted_wrt (\<lambda>a b. \<not> lt b a) (insert_by lt x xs)"
  using assms(2)
proof (induction xs)
  case Nil
  show ?case by simp
next
  case (Cons y ys)
  have irr: "\<And>a. \<not> lt a a" and tr: "\<And>a b c. lt a b \<Longrightarrow> lt b c \<Longrightarrow> lt a c"
    and ntr: "\<And>a b c. \<not> lt a b \<Longrightarrow> \<not> lt b c \<Longrightarrow> \<not> lt a c"
    using assms(1) unfolding strict_weak_ordering_def by blast+
  show ?case
  proof (cases "lt y x")
    case True
    have "\<not> lt x y" using True irr tr by blast
    then show ?thesis using True Cons by (auto simp: set_insert_by)
  next
    case False
    have "\<forall>z\<in>set ys. \<not> lt z x" using False Cons.prems ntr by auto
    then show ?thesis using False Cons.prems by auto
  qed
qed

lemma sorted_insertion_sort:
  "strict_weak_ordering lt \<Longrightarrow> sorted_wrt (\<lambda>a b. \<not> lt b a) (insertion_sort lt xs)"
  unfolding insertion_sort_def by (induction xs) (auto intro: sorted_insert_by)

lemma insertion_sort_spec: "sort_Sort_spec insertion_sort"
  unfolding sort_Sort_spec_def by (simp add: mset_insertion_sort sorted_insertion_sort)

lemma Less_total_minutes: "Less a b = (total_minutes a < total_minutes b)"
  by (simp add: Less_def total_minutes_def)

lemma strict_weak_Reverse_Less: "strict_weak_ordering (sort_Reverse Less)"
  unfolding strict_weak_ordering_def sort_Reverse_def Less_total_minutes by auto

lemma srt_mset: "sort_Sort_spec srt \<Longrightarrow> mset (srt lt xs) = mset xs"
  unfolding sort_Sort_spec_def by blast

lemma srt_sorted:
  "sort_Sort_spec srt \<Longrightarrow> strict_weak_ordering lt \<Longrightarrow>
   sorted_wrt (\<lambda>a b. \<not> lt b a) (srt lt xs)"
  unfolding sort_Sort_spec_def by blast

lemma rng_mset: "range_spec rng \<Longrightarrow> mset (rng m) = mset m"
  unfolding range_spec_def by blast

lemma srt_Reverse_Less_sorted:
  assumes "sort_Sort_spec srt"
  shows "sorted_wrt (\<lambda>a b. total_minutes b \<le> total_minutes a) (srt (sort_Reverse Less) xs)"
proof -
  have "sorted_wrt (\<lambda>a b. \<not> sort_Reverse Less b a) (srt (sort_Reverse Less) xs)"
    by (rule srt_sorted [OF assms strict_weak_Reverse_Less])
  moreover have "(\<lambda>a b. \<not> sort_Reverse Less b a) = (\<lambda>a b. total_minutes b \<le> total_minutes a)"
    by (auto simp: sort_Reverse_def Less_total_minutes fun_eq_iff)
  ultimately show ?thesis by simp
qed

lemma sorted_wrt_adjacent:
  "sorted_wrt P xs \<Longrightarrow> Suc i < length xs \<Longrightarrow> P (xs ! i) (xs ! Suc i)"
  by (simp add: sorted_wrt_iff_nth_less)

lemma sum_list_update:
  fixes g :: "'k \<times> 'v \<Rightarrow> 'b::ab_group_add"
  shows "sum_list (map g (AList.update k v al)) =
     (case map_of al k of
        None \<Rightarrow> sum_list (map g al) + g (k, v)
      | Some old \<Rightarrow> sum_list (map g al) - g (k, old) + g (k, v))"
  by (induction al) (auto simp: algebra_simps split: option.splits)

lemma participantsMap_add_Billable:
  "sum_list (map (\<lambda>kv. BillableMinutes (snd kv)) (participantsMap_add m e)) =
   sum_list (map (\<lambda>kv. BillableMinutes (snd kv)) m) + (if Billable e then Minutes e else 0)"
  unfolding participantsMap_add_def Let_def
  by (simp add: sum_list_update add_Minutes_def split: option.splits)

lemma participantsMap_add_Unbillable:
  "sum_list (map (\<lambda>kv. UnbillableMinutes (snd kv)) (participantsMap_add m e)) =
   sum_list (map (\<lambda>kv. UnbillableMinutes (snd kv)) m) + (if Billable e then 0 else Minutes e)"
  unfolding participantsMap_add_def Let_def
  by (simp add: sum_list_update add_Minutes_def split: option.splits)

lemma participantsMap_Billable:
  "sum_list (map (\<lambda>kv. BillableMinutes (snd kv)) (foldl participantsMap_add m fes)) =
   sum_list (map (\<lambda>kv. BillableMinutes (snd kv)) m) + sum_list (map Minutes (filter Billable fes))"
  by (induction fes arbitrary: m) (simp_all add: participantsMap_add_Billable)

lemma participantsMap_Unbillable:
  "sum_list (map (\<lambda>kv. UnbillableMinutes (snd kv)) (foldl participantsMap_add m fes)) =
   sum_list (map (\<lambda>kv. UnbillableMinutes (snd kv)) m) +
   sum_list (map Minutes (filter (\<lambda>e. \<not> Billable e) fes))"
  by (induction fes arbitrary: m) (simp_all add: participantsMap_add_Unbillable)

lemma sum_list_mset_cong:
  fixes f :: "'a \<Rightarrow> 'b::comm_monoid_add"
  shows "mset xs = mset ys \<Longrightarrow> sum_list (map f xs) = sum_list (map f ys)"
  by (metis mset_map sum_mset_sum_list)

lemma GetParticipantKpis_mset:
  assumes "range_spec rng" and "sort_Sort_spec srt"
  shows "mset (GetParticipantKpis rng srt fes) = mset (map snd (foldl participantsMap_add [] fes))"
  unfolding GetParticipantKpis_def Let_def
  by (simp add: srt_mset [OF assms(2)] rng_mset [OF assms(1)])

lemma distinct_participantsMap_add:
  "distinct (map fst m) \<Longrightarrow> distinct (map fst (participantsMap_add m e))"
  unfolding participantsMap_add_def Let_def by (simp add: distinct_update)

lemma distinct_participantsMap:
  "distinct (map fst m) \<Longrightarrow> distinct (map fst (foldl participantsMap_add m fes))"
  by (induction fes arbitrary: m) (simp_all add: distinct_participantsMap_add)

lemma find_snoc:
  "find P (xs @ [x]) = (case find P xs of Some y \<Rightarrow> Some y | None \<Rightarrow> if P x then Some x else None)"
  by (induction xs) auto

lemma find_None_filter: "find P xs = None \<Longrightarrow> filter (\<lambda>x. P x \<and> Q x) xs = []"
  by (induction xs) (auto split: if_splits)

lemma map_of_participantsMap_add:
  assumes "map_of m = kpi_of fes"
  shows "map_of (participantsMap_add m e) = kpi_of (fes @ [e])"
proof (rule ext)
  fix k
  have m: "\<And>k'. map_of m k' = kpi_of fes k'" using assms by simp
  show "map_of (participantsMap_add m e) k = kpi_of (fes @ [e]) k"
  proof (cases "k = Participant.Id (User e)")
    case False
    then show ?thesis
      by (simp add: participantsMap_add_def Let_def update_conv' m)
         (simp add: kpi_of_def find_snoc split: option.splits)
  next
    case True
    show ?thesis
    proof (cases "find (\<lambda>x. Participant.Id (User x) = k) fes")
      case None
      then show ?thesis
        using True
        by (simp add: participantsMap_add_def Let_def update_conv' m)
           (simp add: kpi_of_def find_snoc add_Minutes_def find_None_filter)
    next
      case (Some e0)
      then show ?thesis
        using True
        by (simp add: participantsMap_add_def Let_def update_conv' m)
           (simp add: kpi_of_def find_snoc add_Minutes_def)
    qed
  qed
qed

lemma map_of_participantsMap:
  "map_of (foldl participantsMap_add [] fes) = kpi_of fes"
proof (induction fes rule: rev_induct)
  case Nil
  show ?case by (simp add: kpi_of_def fun_eq_iff)
next
  case (snoc e fes)
  then show ?case by (simp add: map_of_participantsMap_add)
qed

lemma set_participantsMap:
  "((k, v) \<in> set (foldl participantsMap_add [] fes)) = (kpi_of fes k = Some v)"
  using map_of_participantsMap [of fes] distinct_participantsMap [of "[]" fes]
  by (metis distinct.simps(1) list.simps(8) map_of_eq_Some_iff)

lemma kpi_of_Id: "kpi_of fes k = Some v \<Longrightarrow> Participant.Id (Participant v) = k"
  unfolding kpi_of_def by (auto dest: find_Some_iff [THEN iffD1])

lemma kpi_of_dom: "(kpi_of fes k \<noteq> None) = (k \<in> set (map (\<lambda>e. Participant.Id (User e)) fes))"
  unfolding kpi_of_def by (auto simp: find_None_iff)

lemma GetParticipantsPeriodPerPeriod_Participants:
  assumes "GetParticipantsPeriodPerPeriod rng srt tagg fes = Inr pps" and "pp \<in> set pps"
  obtains xs where "ParticipantsPeriod.Participants pp = srt (sort_Reverse Less) xs"
proof (cases "GetParticipantsPeriodPerPeriod_loop tagg fes []")
  case (Inl err)
  with assms(1) show ?thesis by (simp add: GetParticipantsPeriodPerPeriod_def)
next
  case (Inr m)
  with assms(1) have "pps = map (\<lambda>v. v\<lparr>ParticipantsPeriod.Participants := srt (sort_Reverse Less) (ParticipantsPeriod.Participants v)\<rparr>)
                         (map snd (rng m))"
    by (simp add: GetParticipantsPeriodPerPeriod_def)
  with assms(2) obtain v where "pp = v\<lparr>ParticipantsPeriod.Participants := srt (sort_Reverse Less) (ParticipantsPeriod.Participants v)\<rparr>"
    by auto
  then have "ParticipantsPeriod.Participants pp = srt (sort_Reverse Less) (ParticipantsPeriod.Participants v)" by simp
  then show ?thesis by (rule that)
qed

lemma kpi_of_first:
  "kpi_of fes k = Some v \<Longrightarrow>
   \<exists>e. find (\<lambda>e. Participant.Id (User e) = k) fes = Some e \<and> Participant v = User e"
  unfolding kpi_of_def by (cases "find (\<lambda>e. Participant.Id (User e) = k) fes") auto

subsection \<open>\<^verbatim>\<open>GetParticipantKpis\<close> on the example entries\<close>

lemma GetParticipantKpis_example:
  "GetParticipantKpis rev insertion_sort example_entries =
     [\<lparr>Participant = alice, BillableMinutes = 60, UnbillableMinutes = 45\<rparr>,
      \<lparr>Participant = bob, BillableMinutes = 90, UnbillableMinutes = 0\<rparr>]"
  by (simp add: GetParticipantKpis_def example_entries_def participantsMap_add_def add_Minutes_def
      alice_def alice2_def bob_def insertion_sort_def sort_Reverse_def Less_def)

subsection \<open>Dates, period keys and period starts\<close>

lemma decimal_bounds: "list_all isDigit ds \<Longrightarrow> 0 \<le> decimal ds \<and> decimal ds < 10 ^ length ds"
proof (induction ds rule: rev_induct)
  case Nil
  show ?case by (simp add: decimal_def)
next
  case (snoc c ds)
  then have ih: "0 \<le> decimal ds" "decimal ds < 10 ^ length ds" and c: "isDigit c" by simp_all
  have d: "0 \<le> digitVal c \<and> digitVal c \<le> 9"
    using c by (simp add: isDigit_def digitVal_def)
  have e: "decimal (ds @ [c]) = decimal ds * 10 + digitVal c"
    by (simp add: decimal_append decimal_single)
  have "decimal ds + 1 \<le> 10 ^ length ds" using ih(2) by simp
  then have "(decimal ds + 1) * 10 \<le> 10 ^ length ds * 10" by (rule mult_right_mono) simp
  then show ?case using ih(1) d by (simp add: e)
qed

lemma norm_day_in_range:
  "1 \<le> d \<Longrightarrow> d \<le> daysIn m y \<Longrightarrow> norm_day y m d = (y, m, d)"
  by (subst norm_day.simps) simp

lemma time_Date_in_range:
  assumes "1 \<le> m" and "m \<le> 12" and "1 \<le> d" and "d \<le> daysIn m y"
  shows "time_Date y m d 0 0 0 0 loc =
           \<lparr>Year = y, Month = m, Day = d, Hour = 0, Minute = 0, Second = 0,
            Nanosecond = 0, Loc = loc\<rparr>"
proof -
  have "(m - 1) div 12 = 0" and "(m - 1) mod 12 + 1 = m" using assms(1,2) by simp_all
  then show ?thesis
    using assms(3,4) by (simp add: time_Date_def norm_day_in_range)
qed

lemma first_day_in_range: "1 \<le> daysIn m y"
  using daysIn_bounds [of m y] by simp

lemma time_Parse_Inr:
  assumes "time_Parse v = Inr t"
  shows "\<exists>y m d. t = \<lparr>Year = y, Month = m, Day = d, Hour = 0, Minute = 0, Second = 0,
                       Nanosecond = 0, Loc = UTC\<rparr> \<and>
           0 \<le> y \<and> y \<le> 9999 \<and> 1 \<le> m \<and> m \<le> 12 \<and> 1 \<le> d \<and> d \<le> daysIn m y"
proof -
  let ?y = "decimal (take 4 v)" and ?m = "decimal (take 2 (drop 1 (drop 4 v)))"
  let ?d = "decimal (take 2 (drop 1 (drop 2 (drop 1 (drop 4 v)))))"
  from assms have c: "\<not> length v < 4" "list_all isDigit (take 4 v)"
    "\<not> ?m \<le> 0" "\<not> 12 < ?m" "\<not> ?d < 1" "\<not> daysIn ?m ?y < ?d"
    and t: "t = time_Date ?y ?m ?d 0 0 0 0 UTC"
    by (simp_all add: time_Parse_def Let_def split: if_splits)
  have "0 \<le> ?y \<and> ?y < 10 ^ length (take 4 v)" by (rule decimal_bounds [OF c(2)])
  then have y: "0 \<le> ?y" "?y \<le> 9999" using c(1) by simp_all
  have "t = \<lparr>Year = ?y, Month = ?m, Day = ?d, Hour = 0, Minute = 0, Second = 0,
             Nanosecond = 0, Loc = UTC\<rparr>"
    unfolding t using c by (intro time_Date_in_range) simp_all
  with y c show ?thesis by simp
qed

lemma time_Parse_calendar_date: "time_Parse v = Inr t \<Longrightarrow> calendar_date t"
  by (drule time_Parse_Inr) (auto simp: calendar_date_def)

lemma GetInt_period_key: "calendar_date t \<Longrightarrow> GetInt tagg t = Inr (period_key tagg t)"
  by (cases tagg) (simp_all add: calendar_date_def period_key_def GetInt_MonthAgg GetInt_YearAgg
      del: GetInt.simps)

lemma GetPeriod_period_start: "calendar_date t \<Longrightarrow> GetPeriod tagg t = period_start tagg t"
  by (cases tagg) (simp_all add: calendar_date_def period_start_def time_Date_in_range
      first_day_in_range)

lemma calendar_date_period_start: "calendar_date t \<Longrightarrow> calendar_date (period_start tagg t)"
  by (cases tagg) (simp_all add: calendar_date_def period_start_def first_day_in_range)

lemma period_key_period_start: "period_key tagg (period_start tagg t) = period_key tagg t"
  by (cases tagg) (simp_all add: period_key_def period_start_def)

lemma GetInt_GetPeriod:
  "calendar_date t \<Longrightarrow> GetInt tagg (GetPeriod tagg t) = Inr (period_key tagg t)"
  by (simp add: GetPeriod_period_start GetInt_period_key calendar_date_period_start
      period_key_period_start del: GetInt.simps GetPeriod.simps)

subsection \<open>The aggregation loops keep their invariants\<close>

lemma in_period_GetInt: "in_period tagg k p \<Longrightarrow> GetInt tagg p = Inr k"
  unfolding in_period_def
  by (auto simp: GetInt_period_key calendar_date_period_start period_key_period_start
      simp del: GetInt.simps)

lemma in_period_GetPeriod:
  "calendar_date t \<Longrightarrow> in_period tagg (period_key tagg t) (GetPeriod tagg t)"
  unfolding in_period_def by (auto simp: GetPeriod_period_start simp del: GetPeriod.simps)

lemma invoices_inv_step:
  assumes inv: "invoices_inv tagg m keys" and t: "calendar_date t"
  shows "invoices_inv tagg
           (m(period_key tagg t \<mapsto>
              ik\<lparr>InvoicePeriodKpi.Period := GetPeriod tagg t, Amount := a,
                 InvoicePeriodKpi.TimeAgg := Some tagg\<rparr>))
           (if m (period_key tagg t) = None then keys @ [period_key tagg t] else keys)"
proof -
  have v: "valid_ik tagg (period_key tagg t)
             (ik\<lparr>InvoicePeriodKpi.Period := GetPeriod tagg t, Amount := a,
                 InvoicePeriodKpi.TimeAgg := Some tagg\<rparr>)"
    using in_period_GetPeriod [OF t] by (simp add: valid_ik_def del: GetPeriod.simps)
  show ?thesis
  proof (cases "m (period_key tagg t)")
    case None
    then have "period_key tagg t \<notin> set keys" using inv by (auto simp: invoices_inv_def)
    then show ?thesis using inv None v by (auto simp: invoices_inv_def)
  next
    case (Some old)
    then have "period_key tagg t \<in> dom m" by auto
    then show ?thesis using inv Some v by (auto simp: invoices_inv_def)
  qed
qed

lemma GetInvoiceKpiPerPeriod_loop_ok:
  assumes "\<forall>i\<in>set fis. \<exists>t. time_Parse (InvoiceDate i) = Inr t"
    and "invoices_inv tagg m keys"
  shows "\<exists>m' keys'. GetInvoiceKpiPerPeriod_loop tagg fis m keys = Inr (m', keys') \<and>
           invoices_inv tagg m' keys'"
  using assms
proof (induction fis arbitrary: m keys)
  case Nil
  then show ?case by simp
next
  case (Cons invoice fis)
  from Cons.prems(1) obtain t where t: "time_Parse (InvoiceDate invoice) = Inr t" by auto
  then have c: "calendar_date t" by (rule time_Parse_calendar_date)
  have k: "GetInt tagg t = Inr (period_key tagg t)" by (rule GetInt_period_key [OF c])
  let ?ik = "case m (period_key tagg t) of Some x \<Rightarrow> x | None \<Rightarrow> zero_InvoicePeriodKpi"
  let ?m1 = "m(period_key tagg t \<mapsto>
              ?ik\<lparr>InvoicePeriodKpi.Period := GetPeriod tagg t,
                   Amount := Amount ?ik + TotalAmount invoice,
                   InvoicePeriodKpi.TimeAgg := Some tagg\<rparr>)"
  let ?keys1 = "if m (period_key tagg t) = None then keys @ [period_key tagg t] else keys"
  have inv1: "invoices_inv tagg ?m1 ?keys1"
    by (rule invoices_inv_step [OF Cons.prems(2) c])
  have rest: "\<forall>i\<in>set fis. \<exists>t. time_Parse (InvoiceDate i) = Inr t"
    using Cons.prems(1) by simp
  have eq: "GetInvoiceKpiPerPeriod_loop tagg (invoice # fis) m keys =
        GetInvoiceKpiPerPeriod_loop tagg fis ?m1 ?keys1"
    by (simp add: t k Let_def del: GetInt.simps GetPeriod.simps)
  show ?case unfolding eq by (rule Cons.IH [OF rest inv1])
qed

lemma list_all2_lookup:
  assumes "set ks = dom m" and "\<forall>k v. m k = Some v \<longrightarrow> P k v"
  shows "list_all2 P ks (map (\<lambda>v. case m v of Some x \<Rightarrow> x | None \<Rightarrow> z) ks)"
  using assms(1) unfolding list_all2_map2
  by - (rule list_all2_same [THEN iffD2], use assms(2) in \<open>auto split: option.splits\<close>)

lemma GetInvoiceKpiPerPeriod_ok:
  assumes "\<forall>i\<in>set fis. \<exists>t. time_Parse (InvoiceDate i) = Inr t"
  shows "\<exists>sik ks. GetInvoiceKpiPerPeriod tagg fis = Inr sik \<and> sorted ks \<and> distinct ks \<and>
           list_all2 (valid_ik tagg) ks sik"
proof -
  have "invoices_inv tagg (Map.empty :: int \<rightharpoonup> 'a InvoicePeriodKpi) []"
    by (simp add: invoices_inv_def)
  from GetInvoiceKpiPerPeriod_loop_ok [OF assms this]
  obtain m' keys' where l: "GetInvoiceKpiPerPeriod_loop tagg fis Map.empty [] = Inr (m', keys')"
    and inv: "invoices_inv tagg m' keys'" by blast
  have "list_all2 (valid_ik tagg) (sort keys')
          (map (\<lambda>v. case m' v of Some x \<Rightarrow> x | None \<Rightarrow> zero_InvoicePeriodKpi) (sort keys'))"
    using inv by (intro list_all2_lookup) (auto simp: invoices_inv_def)
  moreover have "distinct (sort keys')" using inv by (simp add: invoices_inv_def)
  ultimately show ?thesis
    by (intro exI [of _ "sort keys'"] exI) (simp add: GetInvoiceKpiPerPeriod_def l)
qed

lemma set_update_subset: "set (AList.update k v al) \<subseteq> insert (k, v) (set al)"
  by (induction al) auto

lemma participants_inv_step:
  assumes inv: "participants_inv tagg al" and t: "calendar_date t"
  shows "participants_inv tagg
           (AList.update (period_key tagg t)
              (pk\<lparr>ParticipantsPeriod.Period := GetPeriod tagg t,
                  ParticipantsPeriod.TimeAgg := Some tagg,
                  ParticipantsPeriod.Participants := ps\<rparr>) al)"
proof -
  have v: "valid_pk tagg (period_key tagg t)
             (pk\<lparr>ParticipantsPeriod.Period := GetPeriod tagg t,
                  ParticipantsPeriod.TimeAgg := Some tagg,
                  ParticipantsPeriod.Participants := ps\<rparr>)"
    using in_period_GetPeriod [OF t] by (simp add: valid_pk_def del: GetPeriod.simps)
  have d: "distinct (map fst (AList.update (period_key tagg t)
              (pk\<lparr>ParticipantsPeriod.Period := GetPeriod tagg t,
                  ParticipantsPeriod.TimeAgg := Some tagg,
                  ParticipantsPeriod.Participants := ps\<rparr>) al))"
    using inv by (simp add: participants_inv_def distinct_update)
  have "valid_pk tagg k' pk'"
    if "(k', pk') \<in> set (AList.update (period_key tagg t)
              (pk\<lparr>ParticipantsPeriod.Period := GetPeriod tagg t,
                  ParticipantsPeriod.TimeAgg := Some tagg,
                  ParticipantsPeriod.Participants := ps\<rparr>) al)" for k' pk'
  proof -
    from that set_update_subset
    have "(k', pk') = (period_key tagg t,
              pk\<lparr>ParticipantsPeriod.Period := GetPeriod tagg t,
                  ParticipantsPeriod.TimeAgg := Some tagg,
                  ParticipantsPeriod.Participants := ps\<rparr>) \<or> (k', pk') \<in> set al"
      by fastforce
    then show ?thesis
    proof
      assume "(k', pk') = (period_key tagg t,
              pk\<lparr>ParticipantsPeriod.Period := GetPeriod tagg t,
                  ParticipantsPeriod.TimeAgg := Some tagg,
                  ParticipantsPeriod.Participants := ps\<rparr>)"
      with v show ?thesis by simp
    next
      assume "(k', pk') \<in> set al"
      with inv show ?thesis by (auto simp: participants_inv_def)
    qed
  qed
  with d show ?thesis unfolding participants_inv_def by blast
qed

lemma GetParticipantsPeriodPerPeriod_loop_ok:
  assumes "\<forall>e\<in>set fes. \<exists>t. time_Parse (Date e) = Inr t"
    and "participants_inv tagg al"
  shows "\<exists>al'. GetParticipantsPeriodPerPeriod_loop tagg fes al = Inr al' \<and>
           participants_inv tagg al'"
  using assms
proof (induction fes arbitrary: al)
  case Nil
  then show ?case by simp
next
  case (Cons entry fes)
  from Cons.prems(1) obtain t where t: "time_Parse (Date entry) = Inr t" by auto
  then have c: "calendar_date t" by (rule time_Parse_calendar_date)
  have k: "GetInt tagg t = Inr (period_key tagg t)" by (rule GetInt_period_key [OF c])
  let ?pk = "case map_of al (period_key tagg t) of
               Some x \<Rightarrow> x | None \<Rightarrow> zero_ParticipantsPeriod"
  let ?al1 = "AList.update (period_key tagg t)
                (?pk\<lparr>ParticipantsPeriod.Period := GetPeriod tagg t,
                     ParticipantsPeriod.TimeAgg := Some tagg,
                     ParticipantsPeriod.Participants :=
                       Participants_add entry (ParticipantsPeriod.Participants ?pk)\<rparr>) al"
  have inv1: "participants_inv tagg ?al1"
    by (rule participants_inv_step [OF Cons.prems(2) c])
  have rest: "\<forall>e\<in>set fes. \<exists>t. time_Parse (Date e) = Inr t"
    using Cons.prems(1) by simp
  have eq: "GetParticipantsPeriodPerPeriod_loop tagg (entry # fes) al =
        GetParticipantsPeriodPerPeriod_loop tagg fes ?al1"
    by (simp add: t k Let_def del: GetInt.simps GetPeriod.simps)
  show ?case unfolding eq by (rule Cons.IH [OF rest inv1])
qed

lemma GetParticipantsPeriodPerPeriod_ok:
  assumes "range_spec rng" and "\<forall>e\<in>set fes. \<exists>t. time_Parse (Date e) = Inr t"
  shows "\<exists>pps ks. GetParticipantsPeriodPerPeriod rng srt tagg fes = Inr pps \<and> distinct ks \<and>
           list_all2 (valid_pk tagg) ks pps"
proof -
  have "participants_inv tagg []" by (simp add: participants_inv_def)
  from GetParticipantsPeriodPerPeriod_loop_ok [OF assms(2) this]
  obtain al where l: "GetParticipantsPeriodPerPeriod_loop tagg fes [] = Inr al"
    and inv: "participants_inv tagg al" by blast
  let ?f = "\<lambda>v. v\<lparr>ParticipantsPeriod.Participants :=
                     srt (sort_Reverse Less) (ParticipantsPeriod.Participants v)\<rparr>"
  have ms: "mset (rng al) = mset al" by (rule rng_mset [OF assms(1)])
  then have "mset (map fst (rng al)) = mset (map fst al)" by (metis mset_map)
  then have d: "distinct (map fst (rng al))"
    using inv mset_eq_imp_distinct_iff unfolding participants_inv_def by blast
  have s: "set (rng al) = set al" using ms by (rule mset_eq_setD)
  have "list_all2 (valid_pk tagg) (map fst (rng al)) (map ?f (map snd (rng al)))"
    unfolding list_all2_map1 list_all2_map2
    by (rule list_all2_same [THEN iffD2])
       (use inv s in \<open>auto simp: participants_inv_def valid_pk_def\<close>)
  with d show ?thesis
    by (intro exI [of _ "map fst (rng al)"] exI)
       (simp add: GetParticipantsPeriodPerPeriod_def l)
qed

lemma merge_invoices:
  assumes "list_all2 (valid_ik tagg) ks sik"
  shows "distinct ks \<Longrightarrow>
         GetProjectKpiPerPeriod_invoices name tagg' sik m keys =
           Inr (\<lambda>k. case map_of (zip ks sik) k of
                       None \<Rightarrow> m k
                     | Some ik \<Rightarrow> Some (with_invoice name tagg' ik (lookup_ppm m k)),
                keys @ filter (\<lambda>k. m k = None) ks)"
  using assms
proof (induction arbitrary: m keys rule: list_all2_induct)
  case Nil
  show ?case by simp
next
  case (Cons k ks ik sik)
  have ta: "InvoicePeriodKpi.TimeAgg ik = Some tagg"
    and key: "GetInt tagg (InvoicePeriodKpi.Period ik) = Inr k"
    using Cons.hyps(1) by (simp_all add: valid_ik_def in_period_GetInt del: GetInt.simps)
  let ?m1 = "m(k \<mapsto> with_invoice name tagg' ik (lookup_ppm m k))"
  let ?keys1 = "if m k = None then keys @ [k] else keys"
  have d: "distinct ks" and nk: "k \<notin> set ks" using Cons.prems by simp_all
  have step: "GetProjectKpiPerPeriod_invoices name tagg' (ik # sik) m keys =
              GetProjectKpiPerPeriod_invoices name tagg' sik ?m1 ?keys1"
    by (simp add: ta key Let_def with_invoice_def lookup_ppm_def del: GetInt.simps)
  have nz: "map_of (zip ks sik) k = None"
    using nk list_all2_lengthD [OF Cons.hyps(2)] by (simp add: map_of_zip_is_None)
  have f: "filter (\<lambda>k'. ?m1 k' = None) ks = filter (\<lambda>k'. m k' = None) ks"
    using nk by (intro filter_cong) auto
  have m: "(\<lambda>k'. case map_of (zip ks sik) k' of
                     None \<Rightarrow> ?m1 k'
                   | Some ik' \<Rightarrow> Some (with_invoice name tagg' ik' (lookup_ppm ?m1 k'))) =
           (\<lambda>k'. case map_of (zip (k # ks) (ik # sik)) k' of
                     None \<Rightarrow> m k'
                   | Some ik' \<Rightarrow> Some (with_invoice name tagg' ik' (lookup_ppm m k')))"
  proof (rule ext)
    fix k'
    show "(case map_of (zip ks sik) k' of
                     None \<Rightarrow> ?m1 k'
                   | Some ik' \<Rightarrow> Some (with_invoice name tagg' ik' (lookup_ppm ?m1 k'))) =
          (case map_of (zip (k # ks) (ik # sik)) k' of
                     None \<Rightarrow> m k'
                   | Some ik' \<Rightarrow> Some (with_invoice name tagg' ik' (lookup_ppm m k')))"
      using nz by (cases "k' = k") (simp_all add: lookup_ppm_def split: option.splits)
  qed
  show ?case
    unfolding step Cons.IH [OF d] f m by (simp split: if_splits)
qed

lemma merge_participants:
  assumes "list_all2 (valid_pk tagg) ks pps"
  shows "distinct ks \<Longrightarrow>
         GetProjectKpiPerPeriod_participants name tagg' pps m keys =
           Inr (\<lambda>k. case map_of (zip ks pps) k of
                       None \<Rightarrow> m k
                     | Some pk \<Rightarrow> Some (with_participants name tagg' pk (lookup_ppm m k)),
                keys @ filter (\<lambda>k. m k = None) ks)"
  using assms
proof (induction arbitrary: m keys rule: list_all2_induct)
  case Nil
  show ?case by simp
next
  case (Cons k ks pk pps)
  have ta: "ParticipantsPeriod.TimeAgg pk = Some tagg"
    and key: "GetInt tagg (ParticipantsPeriod.Period pk) = Inr k"
    using Cons.hyps(1) by (simp_all add: valid_pk_def in_period_GetInt del: GetInt.simps)
  let ?m1 = "m(k \<mapsto> with_participants name tagg' pk (lookup_ppm m k))"
  let ?keys1 = "if m k = None then keys @ [k] else keys"
  have d: "distinct ks" and nk: "k \<notin> set ks" using Cons.prems by simp_all
  have step: "GetProjectKpiPerPeriod_participants name tagg' (pk # pps) m keys =
              GetProjectKpiPerPeriod_participants name tagg' pps ?m1 ?keys1"
    by (simp add: ta key Let_def with_participants_def lookup_ppm_def del: GetInt.simps)
  have nz: "map_of (zip ks pps) k = None"
    using nk list_all2_lengthD [OF Cons.hyps(2)] by (simp add: map_of_zip_is_None)
  have f: "filter (\<lambda>k'. ?m1 k' = None) ks = filter (\<lambda>k'. m k' = None) ks"
    using nk by (intro filter_cong) auto
  have m: "(\<lambda>k'. case map_of (zip ks pps) k' of
                     None \<Rightarrow> ?m1 k'
                   | Some pk' \<Rightarrow> Some (with_participants name tagg' pk' (lookup_ppm ?m1 k'))) =
           (\<lambda>k'. case map_of (zip (k # ks) (pk # pps)) k' of
                     None \<Rightarrow> m k'
                   | Some pk' \<Rightarrow> Some (with_participants name tagg' pk' (lookup_ppm m k')))"
  proof (rule ext)
    fix k'
    show "(case map_of (zip ks pps) k' of
                     None \<Rightarrow> ?m1 k'
                   | Some pk' \<Rightarrow> Some (with_participants name tagg' pk' (lookup_ppm ?m1 k'))) =
          (case map_of (zip (k # ks) (pk # pps)) k' of
                     None \<Rightarrow> m k'
                   | Some pk' \<Rightarrow> Some (with_participants name tagg' pk' (lookup_ppm m k')))"
      using nz by (cases "k' = k") (simp_all add: lookup_ppm_def split: option.splits)
  qed
  show ?case
    unfolding step Cons.IH [OF d] f m by (simp split: if_splits)
qed

lemma find_zip:
  assumes "list_all2 (\<lambda>k x. f x = Inr k) ks xs"
  shows "find (\<lambda>x. f x = Inr k) xs = map_of (zip ks xs) k"
  using assms by (induction rule: list_all2_induct) auto

lemma map_of_zip_all2:
  assumes "list_all2 P ks xs" and "map_of (zip ks xs) k = Some x"
  shows "P k x"
proof -
  from assms(2) have "(k, x) \<in> set (zip ks xs)" by (rule map_of_SomeD)
  with assms(1) show ?thesis by (auto simp: list_all2_iff)
qed

lemma map_of_zip_None_iff:
  assumes "list_all2 P ks xs"
  shows "(map_of (zip ks xs) k = None) = (k \<notin> set ks)"
  using list_all2_lengthD [OF assms] by (rule map_of_zip_is_None)

lemma valid_ik_key: "valid_ik tagg k ik \<Longrightarrow> GetInt tagg (InvoicePeriodKpi.Period ik) = Inr k"
  by (simp add: valid_ik_def in_period_GetInt del: GetInt.simps)

lemma valid_pk_key: "valid_pk tagg k pk \<Longrightarrow> GetInt tagg (ParticipantsPeriod.Period pk) = Inr k"
  by (simp add: valid_pk_def in_period_GetInt del: GetInt.simps)

lemma merged_map:
  fixes sik :: "('a::zero) InvoicePeriodKpi list"
  assumes vi: "list_all2 (valid_ik tagg) ksi sik" and di: "distinct ksi"
    and vp: "list_all2 (valid_pk tagg) ksp pps" and dp: "distinct ksp"
  shows "\<exists>m keys.
     (case GetProjectKpiPerPeriod_invoices name tagg sik Map.empty [] of
        Inl err \<Rightarrow> Inl err
      | Inr (map1, keys1) \<Rightarrow> GetProjectKpiPerPeriod_participants name tagg pps map1 keys1)
       = Inr (m, keys) \<and>
     distinct keys \<and> set keys = set ksi \<union> set ksp \<and>
     (\<forall>k\<in>set keys.
        GetInt tagg (Period (lookup_ppm m k)) = Inr k \<and>
        Invoice (lookup_ppm m k) =
          (case map_of (zip ksi sik) k of Some ik \<Rightarrow> ik | None \<Rightarrow> zero_InvoicePeriodKpi) \<and>
        Participants (lookup_ppm m k) =
          (case map_of (zip ksp pps) k of
             Some pk \<Rightarrow> ParticipantsPeriod.Participants pk | None \<Rightarrow> []))"
proof -
  let ?A = "map_of (zip ksi sik)" and ?B = "map_of (zip ksp pps)"
  let ?m1 = "\<lambda>k. case ?A k of
                    None \<Rightarrow> (Map.empty :: int \<rightharpoonup> 'a ProjectPeriodKpi) k
                  | Some ik \<Rightarrow> Some (with_invoice name tagg ik (lookup_ppm Map.empty k))"
  let ?m2 = "\<lambda>k. case ?B k of
                    None \<Rightarrow> ?m1 k
                  | Some pk \<Rightarrow> Some (with_participants name tagg pk (lookup_ppm ?m1 k))"
  let ?keys = "ksi @ filter (\<lambda>k. ?m1 k = None) ksp"
  have l1: "GetProjectKpiPerPeriod_invoices name tagg sik Map.empty [] = Inr (?m1, ksi)"
    using merge_invoices [OF vi di, of name tagg Map.empty "[]"] by simp
  have l2: "GetProjectKpiPerPeriod_participants name tagg pps ?m1 ksi = Inr (?m2, ?keys)"
    by (rule merge_participants [OF vp dp])
  have m1None: "(?m1 k = None) = (k \<notin> set ksi)" for k
    using map_of_zip_None_iff [OF vi, of k] by (cases "?A k") auto
  have keys: "?keys = ksi @ filter (\<lambda>k. k \<notin> set ksi) ksp"
    by (simp add: m1None)
  have dk: "distinct ?keys" unfolding keys using di dp by auto
  have sk: "set ?keys = set ksi \<union> set ksp" unfolding keys by auto
  have each: "GetInt tagg (Period (lookup_ppm ?m2 k)) = Inr k \<and>
        Invoice (lookup_ppm ?m2 k) =
          (case ?A k of Some ik \<Rightarrow> ik | None \<Rightarrow> zero_InvoicePeriodKpi) \<and>
        Participants (lookup_ppm ?m2 k) =
          (case ?B k of Some pk \<Rightarrow> ParticipantsPeriod.Participants pk | None \<Rightarrow> [])"
    if k: "k \<in> set ksi \<union> set ksp" for k
  proof (cases "?B k")
    case (Some pk)
    have "valid_pk tagg k pk" by (rule map_of_zip_all2 [OF vp Some])
    then have "GetInt tagg (ParticipantsPeriod.Period pk) = Inr k" by (rule valid_pk_key)
    then show ?thesis
      using Some
      by (cases "?A k")
         (simp_all add: lookup_ppm_def with_participants_def with_invoice_def
            zero_ProjectPeriodKpi_def del: GetInt.simps)
  next
    case None
    then have "k \<notin> set ksp" using map_of_zip_None_iff [OF vp, of k] by simp
    with k have "k \<in> set ksi" by simp
    then obtain ik where A: "?A k = Some ik"
      using map_of_zip_None_iff [OF vi, of k] by (cases "?A k") auto
    have "valid_ik tagg k ik" by (rule map_of_zip_all2 [OF vi A])
    then have "GetInt tagg (InvoicePeriodKpi.Period ik) = Inr k" by (rule valid_ik_key)
    then show ?thesis
      using None A
      by (simp add: lookup_ppm_def with_invoice_def zero_ProjectPeriodKpi_def
          del: GetInt.simps)
  qed
  show ?thesis
    apply (rule exI [of _ ?m2], rule exI [of _ ?keys])
    apply (intro conjI)
       apply (simp only: l1 sum.case prod.case l2)
      apply (rule dk)
     apply (rule sk)
    apply (simp only: sk)
    apply (rule ballI)
    apply (rule each)
    apply assumption
    done
qed

lemma all2_keys_ik:
  "list_all2 (valid_ik tagg) ks sik \<Longrightarrow>
   map (\<lambda>ik. GetInt tagg (InvoicePeriodKpi.Period ik)) sik = map Inr ks"
  by (induction rule: list_all2_induct) (simp_all add: valid_ik_key del: GetInt.simps)

lemma all2_keys_pk:
  "list_all2 (valid_pk tagg) ks pps \<Longrightarrow>
   map (\<lambda>pk. GetInt tagg (ParticipantsPeriod.Period pk)) pps = map Inr ks"
  by (induction rule: list_all2_induct) (simp_all add: valid_pk_key del: GetInt.simps)

subsection \<open>The aggregators on the example project\<close>

lemma parse_examples:
  "time_Parse ''2016-01-15'' = Inr (date 2016 1 15)"
  "time_Parse ''2016-01-20'' = Inr (date 2016 1 20)"
  "time_Parse ''2016-03-01'' = Inr (date 2016 3 1)"
  "time_Parse ''2016-01-05'' = Inr (date 2016 1 5)"
  "time_Parse ''2016-02-05'' = Inr (date 2016 2 5)"
  "time_Parse ''2016-01-10'' = Inr (date 2016 1 10)"
  by (simp_all add: time_Parse_def isDigit_def decimal_def digitVal_def daysIn_def isLeap_def
      time_Date_def norm_day.simps date_def)

lemma GetInt_date:
  "0 \<le> y \<Longrightarrow> y \<le> 9999 \<Longrightarrow> 1 \<le> m \<Longrightarrow> m \<le> 12 \<Longrightarrow> GetInt MonthAgg (date y m d) = Inr (y * 100 + m)"
  "0 \<le> y \<Longrightarrow> y \<le> 9999 \<Longrightarrow> GetInt YearAgg (date y m d) = Inr y"
  by (simp_all add: GetInt_MonthAgg GetInt_YearAgg date_def del: GetInt.simps)

lemma GetPeriod_date:
  "1 \<le> m \<Longrightarrow> m \<le> 12 \<Longrightarrow> GetPeriod MonthAgg (date y m d) = date y m 1"
  "GetPeriod YearAgg (date y m d) = date y 1 1"
  by (simp_all add: date_def time_Date_in_range first_day_in_range)

lemma Year_date: "Year (date y m d) = y" "Month (date y m d) = m"
  by (simp_all add: date_def)

lemma ex_invoices:
  "GetInvoiceKpiPerPeriod MonthAgg example_invoices =
     Inr [\<lparr>InvoicePeriodKpi.TimeAgg = Some MonthAgg, InvoicePeriodKpi.Period = date 2016 1 1, Amount = 750\<rparr>,
          \<lparr>InvoicePeriodKpi.TimeAgg = Some MonthAgg, InvoicePeriodKpi.Period = date 2016 3 1, Amount = 100\<rparr>]"
  by (simp add: GetInvoiceKpiPerPeriod_def example_invoices_def parse_examples GetInt_date
      GetPeriod_date Let_def zero_InvoicePeriodKpi_def del: GetInt.simps GetPeriod.simps)

lemma ex_participants:
  "GetParticipantsPeriodPerPeriod rev insertion_sort MonthAgg example_entries =
     Inr [\<lparr>ParticipantsPeriod.TimeAgg = Some MonthAgg, ParticipantsPeriod.Period = date 2016 2 1,
           ParticipantsPeriod.Participants =
             [\<lparr>Participant = alice2, BillableMinutes = 0, UnbillableMinutes = 45\<rparr>]\<rparr>,
          \<lparr>ParticipantsPeriod.TimeAgg = Some MonthAgg, ParticipantsPeriod.Period = date 2016 1 1,
           ParticipantsPeriod.Participants =
             [\<lparr>Participant = bob, BillableMinutes = 90, UnbillableMinutes = 0\<rparr>,
              \<lparr>Participant = alice, BillableMinutes = 60, UnbillableMinutes = 0\<rparr>]\<rparr>]"
  by (simp add: GetParticipantsPeriodPerPeriod_def example_entries_def parse_examples GetInt_date
      GetPeriod_date Let_def zero_ParticipantsPeriod_def add_Minutes_def
      alice_def alice2_def bob_def insertion_sort_def sort_Reverse_def Less_def
      del: GetInt.simps GetPeriod.simps)

lemma ex_project:
  "GetProjectKpiPerPeriod rev insertion_sort MonthAgg example_project =
     Inr [\<lparr>Name = ''Alpha (web)'', TimeAgg = Some MonthAgg, Period = date 2016 1 1,
           Invoice = \<lparr>InvoicePeriodKpi.TimeAgg = Some MonthAgg,
                      InvoicePeriodKpi.Period = date 2016 1 1, Amount = 750\<rparr>,
           Participants =
             [\<lparr>Participant = bob, BillableMinutes = 90, UnbillableMinutes = 0\<rparr>,
              \<lparr>Participant = alice, BillableMinutes = 60, UnbillableMinutes = 0\<rparr>]\<rparr>,
          \<lparr>Name = ''Alpha (web)'', TimeAgg = Some MonthAgg, Period = date 2016 2 1,
           Invoice = zero_InvoicePeriodKpi,
           Participants =
             [\<lparr>Participant = alice2, BillableMinutes = 0, UnbillableMinutes = 45\<rparr>]\<rparr>,
          \<lparr>Name = ''Alpha (web)'', TimeAgg = Some MonthAgg, Period = date 2016 3 1,
           Invoice = \<lparr>InvoicePeriodKpi.TimeAgg = Some MonthAgg,
                      InvoicePeriodKpi.Period = date 2016 3 1, Amount = 100\<rparr>,
           Participants = []\<rparr>]"
  by (simp add: GetProjectKpiPerPeriod_def example_project_def ex_invoices ex_participants
      GetInt_date Let_def zero_ProjectPeriodKpi_def del: GetInt.simps)

subsection \<open>Period keys of dates, and errors of the aggregation loops\<close>

lemma calendar_date_date:
  "0 \<le> y \<Longrightarrow> y \<le> 9999 \<Longrightarrow> 1 \<le> m \<Longrightarrow> m \<le> 12 \<Longrightarrow> 1 \<le> d \<Longrightarrow> d \<le> daysIn m y \<Longrightarrow>
   calendar_date (date y m d)"
  by (simp add: calendar_date_def date_def)

lemma parse_december:
  "time_Parse ''2016-12-31'' = Inr (date 2016 12 31)"
  "time_Parse ''2017-01-01'' = Inr (date 2017 1 1)"
  by (simp_all add: time_Parse_def isDigit_def decimal_def digitVal_def daysIn_def isLeap_def
      time_Date_def norm_day.simps date_def)

lemma GetInvoiceKpiPerPeriod_loop_error:
  assumes "find (\<lambda>s. isl (time_Parse s)) (map InvoiceDate fis) = Some s"
  shows "\<exists>e. time_Parse s = Inl e \<and> GetInvoiceKpiPerPeriod_loop tagg fis m keys = Inl e"
  using assms
proof (induction fis arbitrary: m keys)
  case Nil
  then show ?case by simp
next
  case (Cons invoice fis)
  show ?case
  proof (cases "time_Parse (InvoiceDate invoice)")
    case (Inl e)
    with Cons.prems have "s = InvoiceDate invoice" by simp
    with Inl show ?thesis by simp
  next
    case (Inr t)
    then have k: "GetInt tagg t = Inr (period_key tagg t)"
      by (intro GetInt_period_key time_Parse_calendar_date)
    from Inr Cons.prems have "find (\<lambda>s. isl (time_Parse s)) (map InvoiceDate fis) = Some s"
      by simp
    from Cons.IH [OF this] show ?thesis
      by (simp add: Inr k Let_def del: GetInt.simps GetPeriod.simps)
  qed
qed

lemma GetParticipantsPeriodPerPeriod_loop_error:
  assumes "find (\<lambda>s. isl (time_Parse s)) (map Date fes) = Some s"
  shows "\<exists>e. time_Parse s = Inl e \<and> GetParticipantsPeriodPerPeriod_loop tagg fes al = Inl e"
  using assms
proof (induction fes arbitrary: al)
  case Nil
  then show ?case by simp
next
  case (Cons entry fes)
  show ?case
  proof (cases "time_Parse (Date entry)")
    case (Inl e)
    with Cons.prems have "s = Date entry" by simp
    with Inl show ?thesis by simp
  next
    case (Inr t)
    then have k: "GetInt tagg t = Inr (period_key tagg t)"
      by (intro GetInt_period_key time_Parse_calendar_date)
    from Inr Cons.prems have "find (\<lambda>s. isl (time_Parse s)) (map Date fes) = Some s"
      by simp
    from Cons.IH [OF this] show ?thesis
      by (simp add: Inr k Let_def del: GetInt.simps GetPeriod.simps)
  qed
qed

lemma GetInvoiceKpiPerPeriod_error:
  assumes "find (\<lambda>s. isl (time_Parse s)) (map InvoiceDate fis) = Some s"
  shows "\<exists>e. time_Parse s = Inl e \<and> GetInvoiceKpiPerPeriod tagg fis = Inl e"
  using GetInvoiceKpiPerPeriod_loop_error [OF assms, of tagg Map.empty "[]"]
  by (auto simp: GetInvoiceKpiPerPeriod_def)

lemma GetParticipantsPeriodPerPeriod_error:
  assumes "find (\<lambda>s. isl (time_Parse s)) (map Date fes) = Some s"
  shows "\<exists>e. time_Parse s = Inl e \<and> GetParticipantsPeriodPerPeriod rng srt tagg fes = Inl e"
  using GetParticipantsPeriodPerPeriod_loop_error [OF assms, of tagg "[]"]
  by (auto simp: GetParticipantsPeriodPerPeriod_def)

lemma find_None_all_parse:
  assumes "find (\<lambda>s. isl (time_Parse s)) (map f xs) = None"
  shows "\<forall>x\<in>set xs. \<exists>t. time_Parse (f x) = Inr t"
proof
  fix x assume "x \<in> set xs"
  with assms have "\<not> isl (time_Parse (f x))" by (auto simp: find_None_iff)
  then show "\<exists>t. time_Parse (f x) = Inr t" by (cases "time_Parse (f x)") auto
qed

lemma find_app:
  "find P (xs @ ys) = (case find P xs of Some x \<Rightarrow> Some x | None \<Rightarrow> find P ys)"
  by (induction xs) auto

lemma GetProjectKpiPerPeriod_error:
  fixes p :: "('a::{zero,plus}) ProjectKpi"
  assumes "find (\<lambda>s. isl (time_Parse s))
             (map InvoiceDate (Invoices (Project p)) @ map Date (DetailedEntries p)) = Some s"
  shows "\<exists>e. time_Parse s = Inl e \<and> GetProjectKpiPerPeriod rng srt tagg p = Inl e"
proof (cases "find (\<lambda>s. isl (time_Parse s)) (map InvoiceDate (Invoices (Project p)))")
  case (Some s')
  with assms have "s' = s" by (simp add: find_app)
  with Some GetInvoiceKpiPerPeriod_error [of "Invoices (Project p)" s tagg]
  show ?thesis by (auto simp: GetProjectKpiPerPeriod_def)
next
  case None
  with assms have e: "find (\<lambda>s. isl (time_Parse s)) (map Date (DetailedEntries p)) = Some s"
    by (simp add: find_app)
  from GetInvoiceKpiPerPeriod_ok [OF find_None_all_parse [OF None], of tagg]
  obtain sik where "GetInvoiceKpiPerPeriod tagg (Invoices (Project p)) = Inr sik" by blast
  with GetParticipantsPeriodPerPeriod_error [OF e, of rng srt tagg]
  show ?thesis by (auto simp: GetProjectKpiPerPeriod_def)
qed

lemma find_exists:
  "\<exists>x\<in>set xs. P x \<Longrightarrow> \<exists>y. find P xs = Some y"
  by (cases "find P xs") (auto simp: find_None_iff)

lemma parse_bad_examples:
  "time_Parse ''2016-02-30'' = Inl (ParseError ''2016-02-30'' ''day out of range'')"
  "time_Parse ''03/01/2016'' = Inl (ParseError ''03/01/2016'' ''cannot parse as 2006'')"
  "time_Parse ''2016-13-01'' = Inl (ParseError ''2016-13-01'' ''month out of range'')"
  by (simp_all add: time_Parse_def isDigit_def decimal_def digitVal_def daysIn_def isLeap_def)

subsection \<open>The period start in the two revisions\<close>

lemma parse_march: "time_Parse ''2016-03-15'' = Inr (date 2016 3 15)"
  by (simp add: time_Parse_def isDigit_def decimal_def digitVal_def daysIn_def isLeap_def
      time_Date_def norm_day.simps date_def)

lemma time_Date_day_zero_march:
  "time_Date 2016 3 0 0 0 0 0 UTC =
     \<lparr>Year = 2016, Month = 2, Day = 29, Hour = 0, Minute = 0, Second = 0,
      Nanosecond = 0, Loc = UTC\<rparr>"
  by (simp add: time_Date_def norm_day.simps daysIn_def isLeap_def)

lemma main_go_Period_day:
  assumes "1 \<le> m" and "m \<le> 12"
  shows "Day (time_Date y m 0 0 0 0 0 UTC) \<noteq> 1 \<and>
         (Month (time_Date y m 0 0 0 0 0 UTC) = (if m = 1 then 12 else m - 1))"
proof -
  let ?y = "if m = 1 then y - 1 else y" and ?m = "if m = 1 then 12 else m - 1"
  have a: "(m - 1) div 12 = 0" "(m - 1) mod 12 + 1 = m" using assms by simp_all
  have b: "28 \<le> daysIn ?m ?y \<and> daysIn ?m ?y \<le> 31" by (rule daysIn_bounds)
  have "norm_day y m 0 = norm_day ?y ?m (daysIn ?m ?y)"
    by (subst norm_day.simps) (simp add: Let_def)
  also have "\<dots> = (?y, ?m, daysIn ?m ?y)"
    using b by (intro norm_day_in_range) simp_all
  finally have "norm_day y m 0 = (?y, ?m, daysIn ?m ?y)" .
  then show ?thesis using b by (simp add: time_Date_def a)
qed

subsection \<open>An invalid \<^verbatim>\<open>--period\<close>\<close>

lemma length_ProjectKpi_RegisterMetrics:
  "length (ProjectKpi_RegisterMetrics pi gauges) = length gauges + 4"
  by (simp add: ProjectKpi_RegisterMetrics_def Let_def)

lemma length_ParticipantKpi_RegisterMetrics:
  "length (ParticipantKpi_RegisterMetrics p gauges prefix source) = length gauges + 2"
  by (simp add: ParticipantKpi_RegisterMetrics_def Let_def)

lemma length_foldl_RegisterMetrics:
  "length (foldl (\<lambda>g p. ParticipantKpi_RegisterMetrics p g prefix source) gauges pks) =
   length gauges + 2 * length pks"
  by (induction pks arbitrary: gauges) (simp_all add: length_ParticipantKpi_RegisterMetrics)

subsection \<open>Invoice totals in exact arithmetic\<close>








subsection \<open>Invoice totals in \<^verbatim>\<open>float64\<close>\<close>



section \<open>The claims\<close>

subsection \<open>C1\<close>

text \<open>
  Claim C1. For every list of time entries, whatever the iteration order of the map and
  whatever the sorting procedure, the \<^verbatim>\<open>BillableMinutes\<close> of the returned summaries sum
  to the \<^verbatim>\<open>Minutes\<close> of the billable entries, and the \<^verbatim>\<open>UnbillableMinutes\<close> to the
  \<^verbatim>\<open>Minutes\<close> of the entries that are not billable. The sums are sums of Go's
  \<^verbatim>\<open>int\<close>, that is of 64-bit words.
\<close>

theorem GetParticipantKpis_minutes_partition:
  assumes "range_spec rng" and "sort_Sort_spec srt"
  shows "sum_list (map BillableMinutes (GetParticipantKpis rng srt fes)) =
           sum_list (map Minutes (filter Billable fes)) \<and>
         sum_list (map UnbillableMinutes (GetParticipantKpis rng srt fes)) =
           sum_list (map Minutes (filter (\<lambda>e. \<not> Billable e) fes))"
proof -
  let ?m = "foldl participantsMap_add [] fes"
  have ms: "mset (GetParticipantKpis rng srt fes) = mset (map snd ?m)"
    by (rule GetParticipantKpis_mset [OF assms])
  have b: "sum_list (map BillableMinutes (GetParticipantKpis rng srt fes)) =
           sum_list (map BillableMinutes (map snd ?m))"
    by (rule sum_list_mset_cong [OF ms])
  have u: "sum_list (map UnbillableMinutes (GetParticipantKpis rng srt fes)) =
           sum_list (map UnbillableMinutes (map snd ?m))"
    by (rule sum_list_mset_cong [OF ms])
  show ?thesis
    using participantsMap_Billable [of "[]" fes] participantsMap_Unbillable [of "[]" fes]
    by (simp add: b u comp_def)
qed

theorem GetParticipantKpis_minutes_partition_witness:
  "range_spec (rev :: (int \<times> ParticipantKpi) list \<Rightarrow> _) \<and>
   sort_Sort_spec (insertion_sort :: _ \<Rightarrow> ParticipantKpi list \<Rightarrow> _) \<and>
   sum_list (map BillableMinutes (GetParticipantKpis rev insertion_sort example_entries)) = 150 \<and>
   sum_list (map UnbillableMinutes (GetParticipantKpis rev insertion_sort example_entries)) = 45"
  using GetParticipantKpis_minutes_partition
          [OF range_spec_rev insertion_sort_spec, of example_entries]
  by (simp add: range_spec_rev insertion_sort_spec example_entries_def)

subsection \<open>C2\<close>

text \<open>
  Claim C2. For a project whose invoice dates and entry dates all parse, whatever the
  iteration order of the map of periods, \<^verbatim>\<open>GetProjectKpiPerPeriod\<close> returns a sequence
  \<open>out\<close> whose period keys (\<^verbatim>\<open>GetInt\<close> of the \<^verbatim>\<open>Period\<close> of each element) are a
  sorted list \<open>ks\<close> without repetition, made of exactly the keys of the invoice
  aggregation \<open>sik\<close> and of the participant aggregation \<open>pps\<close>. The \<^verbatim>\<open>Invoice\<close> of an
  element is the invoice aggregate with its key, and the zero value (amount \<open>0\<close>) when
  there is none; its \<^verbatim>\<open>Participants\<close> are those of the participant aggregate with its
  key, and the empty list when there is none.
\<close>

theorem GetProjectKpiPerPeriod_outer_join:
  fixes p :: "('a::{zero,plus}) ProjectKpi"
  assumes "range_spec rng"
    and "\<forall>i\<in>set (Invoices (Project p)). \<exists>t. time_Parse (InvoiceDate i) = Inr t"
    and "\<forall>e\<in>set (DetailedEntries p). \<exists>t. time_Parse (Date e) = Inr t"
  shows "\<exists>sik pps out ks.
     GetInvoiceKpiPerPeriod tagg (Invoices (Project p)) = Inr sik \<and>
     GetParticipantsPeriodPerPeriod rng srt tagg (DetailedEntries p) = Inr pps \<and>
     GetProjectKpiPerPeriod rng srt tagg p = Inr out \<and>
     map (\<lambda>pp. GetInt tagg (Period pp)) out = map Inr ks \<and>
     sorted ks \<and> distinct ks \<and>
     set (map Inr ks) =
       set (map (\<lambda>ik. GetInt tagg (InvoicePeriodKpi.Period ik)) sik) \<union>
       set (map (\<lambda>pk. GetInt tagg (ParticipantsPeriod.Period pk)) pps) \<and>
     (\<forall>pp\<in>set out.
        Invoice pp =
          (case find (\<lambda>ik. GetInt tagg (InvoicePeriodKpi.Period ik) = GetInt tagg (Period pp)) sik of
             Some ik \<Rightarrow> ik | None \<Rightarrow> zero_InvoicePeriodKpi) \<and>
        Participants pp =
          (case find (\<lambda>pk. GetInt tagg (ParticipantsPeriod.Period pk) = GetInt tagg (Period pp)) pps of
             Some pk \<Rightarrow> ParticipantsPeriod.Participants pk | None \<Rightarrow> []))"
proof -
  from GetInvoiceKpiPerPeriod_ok [OF assms(2), of tagg]
  obtain sik ksi where i: "GetInvoiceKpiPerPeriod tagg (Invoices (Project p)) = Inr sik"
    and di: "distinct ksi" and vi: "list_all2 (valid_ik tagg) ksi sik" by blast
  from GetParticipantsPeriodPerPeriod_ok [OF assms(1,3), of srt tagg]
  obtain pps ksp where pp: "GetParticipantsPeriodPerPeriod rng srt tagg (DetailedEntries p) = Inr pps"
    and dp: "distinct ksp" and vp: "list_all2 (valid_pk tagg) ksp pps" by blast
  from merged_map [OF vi di vp dp, of "Project.Name (Project p)"]
  obtain m keys where
    mk: "(case GetProjectKpiPerPeriod_invoices (Project.Name (Project p)) tagg sik Map.empty [] of
            Inl err \<Rightarrow> Inl err
          | Inr (map1, keys1) \<Rightarrow>
              GetProjectKpiPerPeriod_participants (Project.Name (Project p)) tagg pps map1 keys1)
         = Inr (m, keys)"
    and dk: "distinct keys" and sk: "set keys = set ksi \<union> set ksp"
    and each: "\<forall>k\<in>set keys.
        GetInt tagg (Period (lookup_ppm m k)) = Inr k \<and>
        Invoice (lookup_ppm m k) =
          (case map_of (zip ksi sik) k of Some ik \<Rightarrow> ik | None \<Rightarrow> zero_InvoicePeriodKpi) \<and>
        Participants (lookup_ppm m k) =
          (case map_of (zip ksp pps) k of
             Some pk \<Rightarrow> ParticipantsPeriod.Participants pk | None \<Rightarrow> [])"
    by blast
  let ?out = "map (lookup_ppm m) (sort keys)"
  have out: "GetProjectKpiPerPeriod rng srt tagg p = Inr ?out"
  proof (cases "GetProjectKpiPerPeriod_invoices (Project.Name (Project p)) tagg sik Map.empty []")
    case (Inl err)
    with mk show ?thesis by simp
  next
    case (Inr r)
    obtain map1 keys1 where r: "r = (map1, keys1)" by (cases r)
    from mk Inr r have "GetProjectKpiPerPeriod_participants (Project.Name (Project p)) tagg
                          pps map1 keys1 = Inr (m, keys)" by simp
    then show ?thesis
      unfolding GetProjectKpiPerPeriod_def lookup_ppm_def [abs_def]
      by (simp add: i pp Inr r)
  qed
  have fi: "find (\<lambda>ik. GetInt tagg (InvoicePeriodKpi.Period ik) = Inr k) sik = map_of (zip ksi sik) k"
    for k
    by (rule find_zip) (rule list_all2_mono [OF vi], rule valid_ik_key)
  have fp: "find (\<lambda>pk. GetInt tagg (ParticipantsPeriod.Period pk) = Inr k) pps = map_of (zip ksp pps) k"
    for k
    by (rule find_zip) (rule list_all2_mono [OF vp], rule valid_pk_key)
  have keys_out: "map (\<lambda>pp. GetInt tagg (Period pp)) ?out = map Inr (sort keys)"
    using each by (simp add: comp_def del: GetInt.simps)
  have sets: "set (map Inr (sort keys)) =
       set (map (\<lambda>ik. GetInt tagg (InvoicePeriodKpi.Period ik)) sik) \<union>
       set (map (\<lambda>pk. GetInt tagg (ParticipantsPeriod.Period pk)) pps)"
    unfolding all2_keys_ik [OF vi] all2_keys_pk [OF vp] using sk by auto
  have elems: "\<forall>pp\<in>set ?out.
        Invoice pp =
          (case find (\<lambda>ik. GetInt tagg (InvoicePeriodKpi.Period ik) = GetInt tagg (Period pp)) sik of
             Some ik \<Rightarrow> ik | None \<Rightarrow> zero_InvoicePeriodKpi) \<and>
        Participants pp =
          (case find (\<lambda>pk. GetInt tagg (ParticipantsPeriod.Period pk) = GetInt tagg (Period pp)) pps of
             Some pk \<Rightarrow> ParticipantsPeriod.Participants pk | None \<Rightarrow> [])"
  proof
    fix pp assume "pp \<in> set ?out"
    then obtain k where k: "k \<in> set keys" and e: "pp = lookup_ppm m k" by auto
    from each k have "GetInt tagg (Period (lookup_ppm m k)) = Inr k \<and>
        Invoice (lookup_ppm m k) =
          (case map_of (zip ksi sik) k of Some ik \<Rightarrow> ik | None \<Rightarrow> zero_InvoicePeriodKpi) \<and>
        Participants (lookup_ppm m k) =
          (case map_of (zip ksp pps) k of
             Some pk \<Rightarrow> ParticipantsPeriod.Participants pk | None \<Rightarrow> [])" by (rule bspec)
    then show "Invoice pp =
          (case find (\<lambda>ik. GetInt tagg (InvoicePeriodKpi.Period ik) = GetInt tagg (Period pp)) sik of
             Some ik \<Rightarrow> ik | None \<Rightarrow> zero_InvoicePeriodKpi) \<and>
        Participants pp =
          (case find (\<lambda>pk. GetInt tagg (ParticipantsPeriod.Period pk) = GetInt tagg (Period pp)) pps of
             Some pk \<Rightarrow> ParticipantsPeriod.Participants pk | None \<Rightarrow> [])"
      unfolding e by (simp only: fi fp)
  qed
  show ?thesis
    apply (rule exI [of _ sik], rule exI [of _ pps], rule exI [of _ ?out],
           rule exI [of _ "sort keys"])
    apply (intro conjI)
           apply (rule i)
          apply (rule pp)
         apply (rule out)
        apply (rule keys_out)
       apply simp
      apply (simp add: dk)
     apply (rule sets)
    apply (rule elems)
    done
qed

theorem GetProjectKpiPerPeriod_outer_join_witness:
  "range_spec (rev :: (int \<times> ParticipantsPeriod) list \<Rightarrow> _) \<and>
   list_all (\<lambda>i. \<exists>t. time_Parse (InvoiceDate i) = Inr t) (Invoices (Project example_project)) \<and>
   list_all (\<lambda>e. \<exists>t. time_Parse (Date e) = Inr t) (DetailedEntries example_project) \<and>
   (\<exists>out ks.
      GetProjectKpiPerPeriod rev insertion_sort MonthAgg example_project = Inr out \<and>
      map (\<lambda>pp. GetInt MonthAgg (Period pp)) out = map Inr ks \<and> sorted ks \<and> distinct ks \<and>
      map (\<lambda>pp. Amount (Invoice pp)) out = [750, 0, 100] \<and>
      map (\<lambda>pp. map (\<lambda>p. Participant.Id (Participant p)) (Participants pp)) out =
        [[2, 1], [1], []])"
proof -
  have i: "\<forall>i\<in>set (Invoices (Project example_project)). \<exists>t. time_Parse (InvoiceDate i) = Inr t"
    by (simp add: example_project_def example_invoices_def parse_examples)
  have e: "\<forall>e\<in>set (DetailedEntries example_project). \<exists>t. time_Parse (Date e) = Inr t"
    by (simp add: example_project_def example_entries_def parse_examples)
  from GetProjectKpiPerPeriod_outer_join
         [OF range_spec_rev i e, where srt = insertion_sort and tagg = MonthAgg]
  obtain out ks where
    o: "GetProjectKpiPerPeriod rev insertion_sort MonthAgg example_project = Inr out"
    and k: "map (\<lambda>pp. GetInt MonthAgg (Period pp)) out = map Inr ks" "sorted ks" "distinct ks"
    by blast
  from o have out: "out = projr (GetProjectKpiPerPeriod rev insertion_sort MonthAgg example_project)"
    by simp
  have a: "map (\<lambda>pp. Amount (Invoice pp)) out = [750, 0, 100]"
    unfolding out ex_project by (simp add: zero_InvoicePeriodKpi_def)
  have p: "map (\<lambda>pp. map (\<lambda>p. Participant.Id (Participant p)) (Participants pp)) out =
        [[2, 1], [1], []]"
    unfolding out ex_project by (simp add: alice_def alice2_def bob_def)
  have "\<exists>out ks.
      GetProjectKpiPerPeriod rev insertion_sort MonthAgg example_project = Inr out \<and>
      map (\<lambda>pp. GetInt MonthAgg (Period pp)) out = map Inr ks \<and> sorted ks \<and> distinct ks \<and>
      map (\<lambda>pp. Amount (Invoice pp)) out = [750, 0, 100] \<and>
      map (\<lambda>pp. map (\<lambda>p. Participant.Id (Participant p)) (Participants pp)) out =
        [[2, 1], [1], []]"
  proof (intro exI conjI)
    show "GetProjectKpiPerPeriod rev insertion_sort MonthAgg example_project = Inr out"
      by (rule o)
    show "map (\<lambda>pp. GetInt MonthAgg (Period pp)) out = map Inr ks" by (rule k(1))
    show "sorted ks" by (rule k(2))
    show "distinct ks" by (rule k(3))
    show "map (\<lambda>pp. Amount (Invoice pp)) out = [750, 0, 100]" by (rule a)
    show "map (\<lambda>pp. map (\<lambda>p. Participant.Id (Participant p)) (Participants pp)) out =
        [[2, 1], [1], []]" by (rule p)
  qed
  with i e range_spec_rev show ?thesis by (simp only: list_all_iff simp_thms)
qed

subsection \<open>C3\<close>

text \<open>
  Claim C3. The \<^verbatim>\<open>Period\<close> recorded in an aggregate is the date truncated to the first
  day of its month (or of its year), at midnight, in UTC. The later revision does so:
  \<open>GetPeriod_period_start\<close> above, for every calendar date. The revision of
  \<^verbatim>\<open>src/main.go\<close> passes the day \<open>0\<close> to \<^verbatim>\<open>time.Date\<close>, which the library normalises to
  the last day of the month before (\<open>main_go_Period_day\<close>): for the one invoice dated
  2016-03-15 its \<^verbatim>\<open>GetInvoiceKpiPerMonth\<close> records the period 2016-02-29, where the later
  revision records 2016-03-01.
\<close>

theorem main_go_GetInvoiceKpiPerMonth_previous_month:
  "main_go_GetInvoiceKpiPerMonth [\<lparr>InvoiceDate = ''2016-03-15'', TotalAmount = a\<rparr>] =
     Inr [\<lparr>main_go_Period =
             \<lparr>Year = 2016, Month = 2, Day = 29, Hour = 0, Minute = 0, Second = 0,
              Nanosecond = 0, Loc = UTC\<rparr>,
           main_go_Amount = 0 + a\<rparr>] \<and>
   GetInvoiceKpiPerMonth [\<lparr>InvoiceDate = ''2016-03-15'', TotalAmount = a\<rparr>] =
     Inr [\<lparr>InvoicePeriodKpi.TimeAgg = Some MonthAgg,
           InvoicePeriodKpi.Period =
             \<lparr>Year = 2016, Month = 3, Day = 1, Hour = 0, Minute = 0, Second = 0,
              Nanosecond = 0, Loc = UTC\<rparr>,
           Amount = 0 + a\<rparr>]"
proof -
  have k: "strconv_Atoi (fmt_d 2016 @ fmt_02d 3) = Inr 201603"
    using GetInt_date(1) [of 2016 3 15] by (simp add: Year_date)
  have old: "main_go_GetInvoiceKpiPerMonth [\<lparr>InvoiceDate = ''2016-03-15'', TotalAmount = a\<rparr>] =
     Inr [\<lparr>main_go_Period =
             \<lparr>Year = 2016, Month = 2, Day = 29, Hour = 0, Minute = 0, Second = 0,
              Nanosecond = 0, Loc = UTC\<rparr>,
           main_go_Amount = 0 + a\<rparr>]"
    by (simp add: main_go_GetInvoiceKpiPerMonth_def parse_march Year_date k Let_def
        time_Date_day_zero_march main_go_zero_InvoicePeriodKpi_def)
  have "GetInvoiceKpiPerMonth [\<lparr>InvoiceDate = ''2016-03-15'', TotalAmount = a\<rparr>] =
     Inr [\<lparr>InvoicePeriodKpi.TimeAgg = Some MonthAgg,
           InvoicePeriodKpi.Period = date 2016 3 1, Amount = 0 + a\<rparr>]"
    by (simp add: GetInvoiceKpiPerMonth_def GetInvoiceKpiPerPeriod_def parse_march GetInt_date
        GetPeriod_date Let_def zero_InvoicePeriodKpi_def del: GetInt.simps GetPeriod.simps)
  then have new: "GetInvoiceKpiPerMonth [\<lparr>InvoiceDate = ''2016-03-15'', TotalAmount = a\<rparr>] =
     Inr [\<lparr>InvoicePeriodKpi.TimeAgg = Some MonthAgg,
           InvoicePeriodKpi.Period =
             \<lparr>Year = 2016, Month = 3, Day = 1, Hour = 0, Minute = 0, Second = 0,
              Nanosecond = 0, Loc = UTC\<rparr>,
           Amount = 0 + a\<rparr>]"
    by (simp only: date_def)
  from old new show ?thesis by (rule conjI)
qed

subsection \<open>C4\<close>

text \<open>
  Claim C4. For every calendar date (a date that \<^verbatim>\<open>YYYY-MM-DD\<close> can write, years 0 to
  9999), the key of the month granularity is \<open>year * 100 + month\<close> and the key of
  the year granularity is the year. Two dates of the same month have the same key and
  the same period start, and dates with the same key are of the same month (of the same
  year, for the year granularity). The keys increase with time: the key of one date is
  smaller than the key of another exactly when its month is earlier, so a date in
  December has a smaller key than a date in January of the next year. Every date that
  \<^verbatim>\<open>time.Parse\<close> returns is such a calendar date (\<open>time_Parse_calendar_date\<close>). A
  \<^verbatim>\<open>time.Time\<close> can also hold a year below 0, which no date of this format has; the
  decimal string of its key then starts with a minus sign, and the statement does not
  cover it.
\<close>

theorem period_key_monotone:
  assumes "calendar_date t1" and "calendar_date t2"
  shows "GetInt MonthAgg t1 = Inr (Year t1 * 100 + Month t1) \<and>
         GetInt YearAgg t1 = Inr (Year t1) \<and>
         (Year t1 = Year t2 \<and> Month t1 = Month t2 \<longrightarrow>
            GetInt MonthAgg t1 = GetInt MonthAgg t2 \<and>
            GetPeriod MonthAgg t1 = GetPeriod MonthAgg t2) \<and>
         (Year t1 = Year t2 \<longrightarrow>
            GetInt YearAgg t1 = GetInt YearAgg t2 \<and>
            GetPeriod YearAgg t1 = GetPeriod YearAgg t2) \<and>
         (GetInt MonthAgg t1 = GetInt MonthAgg t2 \<longrightarrow>
            Year t1 = Year t2 \<and> Month t1 = Month t2) \<and>
         (GetInt YearAgg t1 = GetInt YearAgg t2 \<longrightarrow> Year t1 = Year t2) \<and>
         (\<exists>k1 k2. GetInt MonthAgg t1 = Inr k1 \<and> GetInt MonthAgg t2 = Inr k2 \<and>
            (Month t1 = 12 \<and> Month t2 = 1 \<and> Year t2 = Year t1 + 1 \<longrightarrow> k1 < k2) \<and>
            (k1 < k2 \<longleftrightarrow>
               Year t1 < Year t2 \<or> (Year t1 = Year t2 \<and> Month t1 < Month t2))) \<and>
         (\<exists>k1 k2. GetInt YearAgg t1 = Inr k1 \<and> GetInt YearAgg t2 = Inr k2 \<and>
            (k1 < k2 \<longleftrightarrow> Year t1 < Year t2))"
proof -
  have m1: "GetInt MonthAgg t1 = Inr (Year t1 * 100 + Month t1)"
    and m2: "GetInt MonthAgg t2 = Inr (Year t2 * 100 + Month t2)"
    and y1: "GetInt YearAgg t1 = Inr (Year t1)"
    and y2: "GetInt YearAgg t2 = Inr (Year t2)"
    using assms by (simp_all add: calendar_date_def GetInt_MonthAgg GetInt_YearAgg
        del: GetInt.simps)
  have b: "1 \<le> Month t1" "Month t1 \<le> 12" "1 \<le> Month t2" "Month t2 \<le> 12"
    using assms by (simp_all add: calendar_date_def)
  have ord: "(Year t1 * 100 + Month t1 < Year t2 * 100 + Month t2) =
             (Year t1 < Year t2 \<or> (Year t1 = Year t2 \<and> Month t1 < Month t2))"
  proof (cases "Year t1 < Year t2")
    case True
    then show ?thesis using b by simp
  next
    case False
    show ?thesis
    proof (cases "Year t1 = Year t2")
      case True
      then show ?thesis by simp
    next
      case False
      with \<open>\<not> Year t1 < Year t2\<close> have "Year t2 < Year t1" by simp
      then show ?thesis using b by simp
    qed
  qed
  have inj: "Year t1 * 100 + Month t1 = Year t2 * 100 + Month t2 \<longrightarrow>
             Year t1 = Year t2 \<and> Month t1 = Month t2"
  proof
    assume e: "Year t1 * 100 + Month t1 = Year t2 * 100 + Month t2"
    have "\<not> Year t1 < Year t2" using e b by linarith
    moreover have "\<not> Year t2 < Year t1" using e b by linarith
    ultimately have "Year t1 = Year t2" by simp
    with e show "Year t1 = Year t2 \<and> Month t1 = Month t2" by simp
  qed
  have dec: "Month t1 = 12 \<and> Month t2 = 1 \<and> Year t2 = Year t1 + 1 \<longrightarrow>
             Year t1 * 100 + Month t1 < Year t2 * 100 + Month t2"
    by simp
  have same_m: "Year t1 = Year t2 \<and> Month t1 = Month t2 \<longrightarrow>
            GetInt MonthAgg t1 = GetInt MonthAgg t2 \<and>
            GetPeriod MonthAgg t1 = GetPeriod MonthAgg t2"
    unfolding m1 m2 by simp
  have same_y: "Year t1 = Year t2 \<longrightarrow>
            GetInt YearAgg t1 = GetInt YearAgg t2 \<and>
            GetPeriod YearAgg t1 = GetPeriod YearAgg t2"
    unfolding y1 y2 by simp
  have uniq_m: "GetInt MonthAgg t1 = GetInt MonthAgg t2 \<longrightarrow>
            Year t1 = Year t2 \<and> Month t1 = Month t2"
    unfolding m1 m2 using inj by (simp only: sum.inject)
  have uniq_y: "GetInt YearAgg t1 = GetInt YearAgg t2 \<longrightarrow> Year t1 = Year t2"
    unfolding y1 y2 by (simp only: sum.inject simp_thms)
  have mono_m: "\<exists>k1 k2. GetInt MonthAgg t1 = Inr k1 \<and> GetInt MonthAgg t2 = Inr k2 \<and>
            (Month t1 = 12 \<and> Month t2 = 1 \<and> Year t2 = Year t1 + 1 \<longrightarrow> k1 < k2) \<and>
            (k1 < k2 \<longleftrightarrow>
               Year t1 < Year t2 \<or> (Year t1 = Year t2 \<and> Month t1 < Month t2))"
    using m1 m2 dec ord by blast
  have mono_y: "\<exists>k1 k2. GetInt YearAgg t1 = Inr k1 \<and> GetInt YearAgg t2 = Inr k2 \<and>
            (k1 < k2 \<longleftrightarrow> Year t1 < Year t2)"
    using y1 y2 by blast
  from m1 y1 same_m same_y uniq_m uniq_y mono_m mono_y show ?thesis
    by (intro conjI)
qed

theorem period_key_monotone_witness:
  "time_Parse ''2016-12-31'' = Inr (date 2016 12 31) \<and>
   time_Parse ''2017-01-01'' = Inr (date 2017 1 1) \<and>
   calendar_date (date 2016 12 31) \<and> calendar_date (date 2017 1 1) \<and>
   GetInt MonthAgg (date 2016 12 31) = Inr 201612 \<and>
   GetInt MonthAgg (date 2017 1 1) = Inr 201701 \<and>
   GetInt YearAgg (date 2016 12 31) = Inr 2016 \<and>
   (\<exists>k1 k2. GetInt MonthAgg (date 2016 12 31) = Inr k1 \<and>
             GetInt MonthAgg (date 2017 1 1) = Inr k2 \<and> k1 < k2)"
proof -
  have c1: "calendar_date (date 2016 12 31)" and c2: "calendar_date (date 2017 1 1)"
    by (simp_all add: calendar_date_date daysIn_def)
  have k1: "GetInt MonthAgg (date 2016 12 31) = Inr 201612"
    and y1: "GetInt YearAgg (date 2016 12 31) = Inr 2016"
    using period_key_monotone [OF c1 c2] by (simp_all add: Year_date del: GetInt.simps)
  have k2: "GetInt MonthAgg (date 2017 1 1) = Inr 201701"
    using period_key_monotone [OF c2 c1] by (simp add: Year_date del: GetInt.simps)
  show ?thesis
    by (simp add: parse_december c1 c2 k1 k2 y1 del: GetInt.simps)
qed

subsection \<open>C5\<close>

text \<open>
  Claim C5. The sequence returned by \<^verbatim>\<open>GetParticipantKpis\<close>, and the participant list
  of every period returned by \<^verbatim>\<open>GetParticipantsPeriodPerPeriod\<close>, is sorted in
  descending order of the total minutes: of two adjacent elements, the total
  \<^verbatim>\<open>BillableMinutes+UnbillableMinutes\<close> of the later one is at most that of the earlier
  one. Nothing is said of the order of elements with equal totals.
\<close>

theorem GetParticipantKpis_sorted:
  assumes "range_spec rng" and "sort_Sort_spec srt"
  shows "(\<forall>i. Suc i < length (GetParticipantKpis rng srt fes) \<longrightarrow>
            total_minutes (GetParticipantKpis rng srt fes ! Suc i)
              \<le> total_minutes (GetParticipantKpis rng srt fes ! i)) \<and>
         (\<forall>pps. GetParticipantsPeriodPerPeriod rng' srt tagg fes = Inr pps \<longrightarrow>
            (\<forall>pp \<in> set pps. \<forall>i. Suc i < length (ParticipantsPeriod.Participants pp) \<longrightarrow>
               total_minutes (ParticipantsPeriod.Participants pp ! Suc i) \<le> total_minutes (ParticipantsPeriod.Participants pp ! i)))"
proof (intro conjI allI impI ballI)
  fix i
  assume "Suc i < length (GetParticipantKpis rng srt fes)"
  then show "total_minutes (GetParticipantKpis rng srt fes ! Suc i)
              \<le> total_minutes (GetParticipantKpis rng srt fes ! i)"
    unfolding GetParticipantKpis_def Let_def
    by (rule sorted_wrt_adjacent [OF srt_Reverse_Less_sorted [OF assms(2)]])
next
  fix pps pp i
  assume r: "GetParticipantsPeriodPerPeriod rng' srt tagg fes = Inr pps"
    and pp: "pp \<in> set pps" and i: "Suc i < length (ParticipantsPeriod.Participants pp)"
  from r pp obtain xs where "ParticipantsPeriod.Participants pp = srt (sort_Reverse Less) xs"
    by (rule GetParticipantsPeriodPerPeriod_Participants)
  with i show "total_minutes (ParticipantsPeriod.Participants pp ! Suc i) \<le> total_minutes (ParticipantsPeriod.Participants pp ! i)"
    using sorted_wrt_adjacent [OF srt_Reverse_Less_sorted [OF assms(2)], of i xs] by simp
qed

theorem GetParticipantKpis_sorted_witness:
  "range_spec (rev :: (int \<times> ParticipantKpi) list \<Rightarrow> _) \<and>
   sort_Sort_spec (insertion_sort :: _ \<Rightarrow> ParticipantKpi list \<Rightarrow> _) \<and>
   GetParticipantKpis rev insertion_sort example_entries =
     [\<lparr>Participant = alice, BillableMinutes = 60, UnbillableMinutes = 45\<rparr>,
      \<lparr>Participant = bob, BillableMinutes = 90, UnbillableMinutes = 0\<rparr>] \<and>
   total_minutes (GetParticipantKpis rev insertion_sort example_entries ! Suc 0)
     \<le> total_minutes (GetParticipantKpis rev insertion_sort example_entries ! 0) \<and>
   map ParticipantsPeriod.Participants
     (projr (GetParticipantsPeriodPerPeriod rev insertion_sort MonthAgg example_entries)) =
     [[\<lparr>Participant = alice2, BillableMinutes = 0, UnbillableMinutes = 45\<rparr>],
      [\<lparr>Participant = bob, BillableMinutes = 90, UnbillableMinutes = 0\<rparr>,
       \<lparr>Participant = alice, BillableMinutes = 60, UnbillableMinutes = 0\<rparr>]] \<and>
   total_minutes \<lparr>Participant = alice, BillableMinutes = 60, UnbillableMinutes = 0\<rparr>
     \<le> total_minutes \<lparr>Participant = bob, BillableMinutes = 90, UnbillableMinutes = 0\<rparr>"
proof -
  note th = GetParticipantKpis_sorted
    [OF range_spec_rev insertion_sort_spec, where fes = example_entries and rng' = rev
       and tagg = MonthAgg]
  have k: "total_minutes (GetParticipantKpis rev insertion_sort example_entries ! Suc 0)
     \<le> total_minutes (GetParticipantKpis rev insertion_sort example_entries ! 0)"
    using th by (simp add: GetParticipantKpis_example)
  have p: "total_minutes \<lparr>Participant = alice, BillableMinutes = 60, UnbillableMinutes = 0\<rparr>
     \<le> total_minutes \<lparr>Participant = bob, BillableMinutes = 90, UnbillableMinutes = 0\<rparr>"
    using th by (simp add: ex_participants)
  from k p show ?thesis
    by (simp add: range_spec_rev insertion_sort_spec GetParticipantKpis_example ex_participants)
qed

subsection \<open>C6\<close>




subsection \<open>C7\<close>

text \<open>
  Claim C7. When a date of the input does not parse, \<^verbatim>\<open>GetInvoiceKpiPerPeriod\<close>,
  \<^verbatim>\<open>GetParticipantsPeriodPerPeriod\<close> and \<^verbatim>\<open>GetProjectKpiPerPeriod\<close> return the error
  that \<^verbatim>\<open>time.Parse\<close> gave for the first such date, as it is, and no result (the result
  \<open>Inl e\<close> is Go's \<^verbatim>\<open>return nil, err\<close>). For a project the invoice dates are read before
  the entry dates.
\<close>

theorem parse_error_propagates:
  fixes p :: "('a::{zero,plus}) ProjectKpi" and fis :: "'a Invoice list"
  shows
  "((\<exists>i\<in>set fis. isl (time_Parse (InvoiceDate i))) \<longrightarrow>
      (\<exists>s e. find (\<lambda>s. isl (time_Parse s)) (map InvoiceDate fis) = Some s \<and>
              time_Parse s = Inl e \<and> GetInvoiceKpiPerPeriod tagg fis = Inl e)) \<and>
   ((\<exists>x\<in>set fes. isl (time_Parse (Date x))) \<longrightarrow>
      (\<exists>s e. find (\<lambda>s. isl (time_Parse s)) (map Date fes) = Some s \<and>
              time_Parse s = Inl e \<and>
              GetParticipantsPeriodPerPeriod rng srt tagg fes = Inl e)) \<and>
   ((\<exists>i\<in>set (Invoices (Project p)). isl (time_Parse (InvoiceDate i))) \<or>
    (\<exists>x\<in>set (DetailedEntries p). isl (time_Parse (Date x))) \<longrightarrow>
      (\<exists>s e. find (\<lambda>s. isl (time_Parse s))
                (map InvoiceDate (Invoices (Project p)) @ map Date (DetailedEntries p)) = Some s \<and>
              time_Parse s = Inl e \<and> GetProjectKpiPerPeriod rng srt tagg p = Inl e))"
proof (intro conjI impI)
  assume "\<exists>i\<in>set fis. isl (time_Parse (InvoiceDate i))"
  then have "\<exists>s\<in>set (map InvoiceDate fis). isl (time_Parse s)" by simp
  then obtain s where f: "find (\<lambda>s. isl (time_Parse s)) (map InvoiceDate fis) = Some s"
    by (rule find_exists [THEN exE])
  from GetInvoiceKpiPerPeriod_error [OF f, of tagg]
  obtain e where "time_Parse s = Inl e \<and> GetInvoiceKpiPerPeriod tagg fis = Inl e" ..
  with f show "\<exists>s e. find (\<lambda>s. isl (time_Parse s)) (map InvoiceDate fis) = Some s \<and>
              time_Parse s = Inl e \<and> GetInvoiceKpiPerPeriod tagg fis = Inl e"
    by (intro exI [of _ s] exI [of _ e]) simp
next
  assume "\<exists>x\<in>set fes. isl (time_Parse (Date x))"
  then have "\<exists>s\<in>set (map Date fes). isl (time_Parse s)" by simp
  then obtain s where f: "find (\<lambda>s. isl (time_Parse s)) (map Date fes) = Some s"
    by (rule find_exists [THEN exE])
  from GetParticipantsPeriodPerPeriod_error [OF f, of rng srt tagg]
  obtain e where "time_Parse s = Inl e \<and>
      GetParticipantsPeriodPerPeriod rng srt tagg fes = Inl e" ..
  with f show "\<exists>s e. find (\<lambda>s. isl (time_Parse s)) (map Date fes) = Some s \<and>
              time_Parse s = Inl e \<and>
              GetParticipantsPeriodPerPeriod rng srt tagg fes = Inl e"
    by (intro exI [of _ s] exI [of _ e]) simp
next
  let ?dates = "map InvoiceDate (Invoices (Project p)) @ map Date (DetailedEntries p)"
  assume "(\<exists>i\<in>set (Invoices (Project p)). isl (time_Parse (InvoiceDate i))) \<or>
    (\<exists>x\<in>set (DetailedEntries p). isl (time_Parse (Date x)))"
  then have "\<exists>s\<in>set ?dates. isl (time_Parse s)"
  proof
    assume "\<exists>i\<in>set (Invoices (Project p)). isl (time_Parse (InvoiceDate i))"
    then show ?thesis by auto
  next
    assume "\<exists>x\<in>set (DetailedEntries p). isl (time_Parse (Date x))"
    then show ?thesis by auto
  qed
  then obtain s where f: "find (\<lambda>s. isl (time_Parse s)) ?dates = Some s"
    by (rule find_exists [THEN exE])
  from GetProjectKpiPerPeriod_error [OF f, of rng srt tagg]
  obtain e where "time_Parse s = Inl e \<and> GetProjectKpiPerPeriod rng srt tagg p = Inl e" ..
  with f show "\<exists>s e. find (\<lambda>s. isl (time_Parse s)) ?dates = Some s \<and>
              time_Parse s = Inl e \<and> GetProjectKpiPerPeriod rng srt tagg p = Inl e"
    by (intro exI [of _ s] exI [of _ e]) simp
qed

theorem parse_error_propagates_witness:
  "time_Parse ''2016-02-30'' = Inl (ParseError ''2016-02-30'' ''day out of range'') \<and>
   GetInvoiceKpiPerPeriod MonthAgg bad_invoices =
     Inl (ParseError ''2016-02-30'' ''day out of range'') \<and>
   time_Parse ''2016-13-01'' = Inl (ParseError ''2016-13-01'' ''month out of range'') \<and>
   GetParticipantsPeriodPerPeriod rev insertion_sort MonthAgg bad_entries =
     Inl (ParseError ''2016-13-01'' ''month out of range'') \<and>
   GetProjectKpiPerPeriod rev insertion_sort YearAgg bad_project =
     Inl (ParseError ''2016-13-01'' ''month out of range'')"
proof -
  note th = parse_error_propagates
    [where fis = bad_invoices and fes = bad_entries and p = bad_project and rng = rev
       and srt = insertion_sort]
  have i: "GetInvoiceKpiPerPeriod MonthAgg bad_invoices =
     Inl (ParseError ''2016-02-30'' ''day out of range'')"
    using th [where tagg = MonthAgg]
    by (simp add: bad_invoices_def parse_examples parse_bad_examples)
  have e: "GetParticipantsPeriodPerPeriod rev insertion_sort MonthAgg bad_entries =
     Inl (ParseError ''2016-13-01'' ''month out of range'')"
    using th [where tagg = MonthAgg]
    by (simp add: bad_entries_def parse_examples parse_bad_examples)
  have p: "GetProjectKpiPerPeriod rev insertion_sort YearAgg bad_project =
     Inl (ParseError ''2016-13-01'' ''month out of range'')"
    using th [where tagg = YearAgg]
    by (simp add: bad_project_def example_project_def example_invoices_def bad_entries_def
        parse_examples parse_bad_examples)
  from i e p show ?thesis by (simp add: parse_bad_examples)
qed

subsection \<open>C8\<close>

text \<open>
  Claim C8, as the program has it. The value of \<^verbatim>\<open>--period\<close> is only looked at inside
  the loop over the projects, after the report of the project's totals and of its
  participants. With a token, a value other than \<^verbatim>\<open>month\<close> and \<^verbatim>\<open>year\<close> and at least
  one project, the program prints the line of the first project and the lines of its
  participants, registers their gauges in \<^verbatim>\<open>metrics\<close>, prints the two lines of the usage
  message and exits with the status 1; it prints no breakdown, reports no other
  project and does not post the metrics.
\<close>

theorem main_invalid_period:
  assumes "timeAggFlag \<noteq> ''month''" and "timeAggFlag \<noteq> ''year''" and "freckleAppToken \<noteq> []"
  shows "main rngK rngP srt freckleAppToken timeAggFlag libratoFlag libratoAccount libratoToken
           (project # projects) =
         \<lparr>stdout =
            [Println_ProjectKpi project] @
            map (\<lambda>p. Println_VerboseString p project)
              (GetParticipantKpis rngK srt (DetailedEntries project)) @
            [Println_string (CHR 0x0A # ''Time period options are : month or year''),
             Println_string (timeAggFlag @ '' is not a valid choice.'')],
          metrics =
            foldl (\<lambda>g p. ParticipantKpi_RegisterMetrics p g
                     (libratoBaseName @ ''.'' @ libratoCatParticipants)
                     (Project.Name (Project project)))
              (ProjectKpi_RegisterMetrics project [])
              (GetParticipantKpis rngK srt (DetailedEntries project)),
          ended = Exit exitCodeNotOk,
          posted = False\<rparr> \<and>
         exit_status (ended (main rngK rngP srt freckleAppToken timeAggFlag libratoFlag
           libratoAccount libratoToken (project # projects))) = 1"
  using assms by (simp add: main_def Let_def exitCodeNotOk_def)

theorem main_invalid_period_witness:
  "''week'' \<noteq> ''month'' \<and> ''week'' \<noteq> ''year'' \<and> ''secret'' \<noteq> [] \<and>
   stdout (main rev rev insertion_sort ''secret'' ''week'' True ''account'' ''secret''
             [example_project, example_project]) =
     [Println_ProjectKpi example_project,
      Println_VerboseString
        \<lparr>Participant = alice, BillableMinutes = 60, UnbillableMinutes = 45\<rparr> example_project,
      Println_VerboseString
        \<lparr>Participant = bob, BillableMinutes = 90, UnbillableMinutes = 0\<rparr> example_project,
      Println_string (CHR 0x0A # ''Time period options are : month or year''),
      Println_string ''week is not a valid choice.''] \<and>
   ended (main rev rev insertion_sort ''secret'' ''week'' True ''account'' ''secret''
            [example_project, example_project]) = Exit 1 \<and>
   posted (main rev rev insertion_sort ''secret'' ''week'' True ''account'' ''secret''
            [example_project, example_project]) = False"
proof -
  have a: "''week'' \<noteq> ''month''" "''week'' \<noteq> ''year''" "''secret'' \<noteq> []" by simp_all
  have e: "DetailedEntries example_project = example_entries"
    by (simp add: example_project_def)
  show ?thesis
    using main_invalid_period [OF a, of rev rev insertion_sort True "''account''" "''secret''"
            example_project "[example_project]"]
    by (simp add: e GetParticipantKpis_example exitCodeNotOk_def)
qed

text \<open>
  The claim C8 as it is stated, that nothing is printed for a project and no metric is
  registered before the exit, fails at the run with the flag \<^verbatim>\<open>week\<close> and the example
  project: three report lines are printed before the usage message and eight gauges
  are registered. With no project at all the flag is never looked at, and the
  program returns with the status 0 and without a usage message.
\<close>

theorem main_invalid_period_partial_work:
  "stdout (main rev rev insertion_sort ''secret'' ''week'' False [] [] [example_project]) =
     [Println_ProjectKpi example_project,
      Println_VerboseString
        \<lparr>Participant = alice, BillableMinutes = 60, UnbillableMinutes = 45\<rparr> example_project,
      Println_VerboseString
        \<lparr>Participant = bob, BillableMinutes = 90, UnbillableMinutes = 0\<rparr> example_project,
      Println_string (CHR 0x0A # ''Time period options are : month or year''),
      Println_string ''week is not a valid choice.''] \<and>
   length (metrics (main rev rev insertion_sort ''secret'' ''week'' False [] []
                      [example_project])) = 8 \<and>
   ended (main rev rev insertion_sort ''secret'' ''week'' False [] [] [example_project]) = Exit 1 \<and>
   main rev rev insertion_sort ''secret'' ''week'' False [] [] ([] :: int ProjectKpi list) =
     \<lparr>stdout = [], metrics = [], ended = Return, posted = False\<rparr> \<and>
   exit_status (ended (main rev rev insertion_sort ''secret'' ''week'' False [] []
                         ([] :: int ProjectKpi list))) = 0"
proof -
  have e: "DetailedEntries example_project = example_entries"
    by (simp add: example_project_def)
  have r: "main rev rev insertion_sort ''secret'' ''week'' False [] [] [example_project] =
     \<lparr>stdout =
        [Println_ProjectKpi example_project] @
        map (\<lambda>p. Println_VerboseString p example_project)
          (GetParticipantKpis rev insertion_sort (DetailedEntries example_project)) @
        [Println_string (CHR 0x0A # ''Time period options are : month or year''),
         Println_string (''week'' @ '' is not a valid choice.'')],
      metrics =
        foldl (\<lambda>g p. ParticipantKpi_RegisterMetrics p g
                 (libratoBaseName @ ''.'' @ libratoCatParticipants)
                 (Project.Name (Project example_project)))
          (ProjectKpi_RegisterMetrics example_project [])
          (GetParticipantKpis rev insertion_sort (DetailedEntries example_project)),
      ended = Exit exitCodeNotOk,
      posted = False\<rparr>"
    by (simp add: main_def Let_def)
  have s: "stdout (main rev rev insertion_sort ''secret'' ''week'' False [] [] [example_project]) =
     [Println_ProjectKpi example_project,
      Println_VerboseString
        \<lparr>Participant = alice, BillableMinutes = 60, UnbillableMinutes = 45\<rparr> example_project,
      Println_VerboseString
        \<lparr>Participant = bob, BillableMinutes = 90, UnbillableMinutes = 0\<rparr> example_project,
      Println_string (CHR 0x0A # ''Time period options are : month or year''),
      Println_string ''week is not a valid choice.'']"
    unfolding r by (simp add: e GetParticipantKpis_example)
  have m: "length (metrics (main rev rev insertion_sort ''secret'' ''week'' False [] []
                      [example_project])) = 8"
    unfolding r
    by (simp add: length_ParticipantKpi_RegisterMetrics length_ProjectKpi_RegisterMetrics e
        GetParticipantKpis_example)
  have x: "ended (main rev rev insertion_sort ''secret'' ''week'' False [] [] [example_project])
             = Exit 1"
    unfolding r by (simp add: exitCodeNotOk_def)
  have z: "main rev rev insertion_sort ''secret'' ''week'' False [] [] ([] :: int ProjectKpi list) =
     \<lparr>stdout = [], metrics = [], ended = Return, posted = False\<rparr>"
    by (simp add: main_def)
  from s m x z show ?thesis by simp
qed

subsection \<open>C9\<close>

text \<open>
  Claim C9. For every string \<open>x\<close>, sanitising twice is the same as sanitising once, and
  the sanitised string contains none of \<^verbatim>\<open>/\<close>, \<^verbatim>\<open>\\<close>, \<^verbatim>\<open>#\<close>, \<^verbatim>\<open>(\<close>, \<^verbatim>\<open>)\<close> and the space.
\<close>

theorem sanitizeMetricName_idempotent:
  "sanitizeMetricName (sanitizeMetricName x) = sanitizeMetricName x \<and>
   CHR ''/'' \<notin> set (sanitizeMetricName x) \<and>
   CHR 0x5C \<notin> set (sanitizeMetricName x) \<and>
   CHR ''#'' \<notin> set (sanitizeMetricName x) \<and>
   CHR ''('' \<notin> set (sanitizeMetricName x) \<and>
   CHR '')'' \<notin> set (sanitizeMetricName x) \<and>
   CHR '' '' \<notin> set (sanitizeMetricName x)"
proof -
  have clean: "set (sanitizeMetricName x) \<inter> metric_forbidden = {}"
    by (rule sanitizeMetricName_clean)
  have "sanitizeMetricName (sanitizeMetricName x) = sanitizeMetricName x"
    by (rule sanitizeMetricName_fixed [OF clean])
  moreover have "\<forall>c \<in> metric_forbidden. c \<notin> set (sanitizeMetricName x)"
    using clean by blast
  ultimately show ?thesis by (simp add: metric_forbidden_def)
qed

subsection \<open>C10\<close>

text \<open>
  Claim C10. \<^verbatim>\<open>GetParticipantKpis\<close> returns exactly one summary for every \<^verbatim>\<open>User.Id\<close>
  that occurs in the entries, and the \<^verbatim>\<open>Participant\<close> embedded in a summary is the
  \<^verbatim>\<open>User\<close> of the first entry, in the order of the input, that has this \<^verbatim>\<open>Id\<close>.
\<close>

theorem GetParticipantKpis_one_per_Id:
  assumes "range_spec rng" and "sort_Sort_spec srt"
  shows "distinct (map (\<lambda>p. Participant.Id (Participant p)) (GetParticipantKpis rng srt fes)) \<and>
         set (map (\<lambda>p. Participant.Id (Participant p)) (GetParticipantKpis rng srt fes)) =
           set (map (\<lambda>e. Participant.Id (User e)) fes) \<and>
         (\<forall>p \<in> set (GetParticipantKpis rng srt fes).
            \<exists>e. find (\<lambda>e. Participant.Id (User e) = Participant.Id (Participant p)) fes = Some e \<and>
                Participant p = User e)"
proof -
  let ?m = "foldl participantsMap_add [] fes"
  let ?R = "GetParticipantKpis rng srt fes"
  let ?id = "\<lambda>p. Participant.Id (Participant p)"
  have ms: "mset ?R = mset (map snd ?m)"
    by (rule GetParticipantKpis_mset [OF assms])
  have ids: "map ?id (map snd ?m) = map fst ?m"
    using set_participantsMap [of _ _ fes] kpi_of_Id [of fes] by (auto simp: map_eq_conv)
  have msid: "mset (map ?id ?R) = mset (map fst ?m)"
  proof -
    have "mset (map ?id ?R) = image_mset ?id (mset ?R)" by simp
    also have "\<dots> = image_mset ?id (mset (map snd ?m))" by (simp only: ms)
    also have "\<dots> = mset (map ?id (map snd ?m))" by (simp only: mset_map)
    finally show ?thesis by (simp only: ids)
  qed
  have d: "distinct (map ?id ?R)"
  proof -
    have "distinct (map fst ?m)" by (rule distinct_participantsMap) simp
    with mset_eq_imp_distinct_iff [OF msid] show ?thesis by simp
  qed
  have "set (map fst ?m) = {k. kpi_of fes k \<noteq> None}"
    using set_participantsMap [of _ _ fes] by force
  also have "\<dots> = set (map (\<lambda>e. Participant.Id (User e)) fes)"
    using kpi_of_dom [of fes] by blast
  finally have sm: "set (map fst ?m) = set (map (\<lambda>e. Participant.Id (User e)) fes)" .
  have "set (map ?id ?R) = set (map fst ?m)"
    using msid by (rule mset_eq_setD)
  with sm have s: "set (map ?id ?R) = set (map (\<lambda>e. Participant.Id (User e)) fes)"
    by simp
  have f: "\<forall>p \<in> set ?R.
            \<exists>e. find (\<lambda>e. Participant.Id (User e) = ?id p) fes = Some e \<and> Participant p = User e"
  proof
    fix p assume "p \<in> set ?R"
    then have "p \<in> set (map snd ?m)" using mset_eq_setD [OF ms] by simp
    then obtain k where "(k, p) \<in> set ?m" by auto
    then have k: "kpi_of fes k = Some p" by (simp add: set_participantsMap)
    then have "?id p = k" by (rule kpi_of_Id)
    with kpi_of_first [OF k]
    show "\<exists>e. find (\<lambda>e. Participant.Id (User e) = ?id p) fes = Some e \<and> Participant p = User e"
      by simp
  qed
  from d s f show ?thesis by blast
qed

theorem GetParticipantKpis_one_per_Id_witness:
  "range_spec (rev :: (int \<times> ParticipantKpi) list \<Rightarrow> _) \<and>
   sort_Sort_spec (insertion_sort :: _ \<Rightarrow> ParticipantKpi list \<Rightarrow> _) \<and>
   map (\<lambda>p. Participant.Id (Participant p))
     (GetParticipantKpis rev insertion_sort example_entries) = [1, 2] \<and>
   map Participant (GetParticipantKpis rev insertion_sort example_entries) = [alice, bob] \<and>
   distinct (map (\<lambda>p. Participant.Id (Participant p))
     (GetParticipantKpis rev insertion_sort example_entries))"
  using GetParticipantKpis_one_per_Id
          [OF range_spec_rev insertion_sort_spec, of example_entries]
  by (simp add: range_spec_rev insertion_sort_spec GetParticipantKpis_example alice_def bob_def)

end
